theory Spec2Isabelle
  imports Main "HOL-Library.Multiset" "HOL-Library.Char_ord" "HOL-Library.List_Lexorder"
begin

section \<open>Strings of the web client\<close>

text \<open>
  The TypeScript sources work on JavaScript strings. A string is modelled as a
  \<^typ>\<open>string\<close>; each \<^typ>\<open>char\<close> stands for the code unit with the same number, so the
  model covers the code units below 256. Comparison of strings with \<open><\<close> and \<open>>\<close> is
  the lexicographic order on code units, which is the order of \<^typ>\<open>string\<close> here.
\<close>

definition isWhiteSpace :: "char \<Rightarrow> bool" where
  \<comment> \<open>the code units below 256 that \<open>String.prototype.trim\<close> removes: TAB, LF, VT, FF, CR,
      SPACE and NBSP\<close>
  "isWhiteSpace c = (c \<in> set [CHR 0x09, CHR 0x0A, CHR 0x0B, CHR 0x0C, CHR 0x0D, CHR 0x20, CHR 0xA0])"

definition trim :: "string \<Rightarrow> string" where
  "trim s = rev (dropWhile isWhiteSpace (rev (dropWhile isWhiteSpace s)))"

definition isDigit :: "char \<Rightarrow> bool" where
  "isDigit c = (c \<in> set ''0123456789'')"

fun split :: "char \<Rightarrow> string \<Rightarrow> string list" where
  \<comment> \<open>\<open>s.split(sep)\<close> for a separator of one code unit\<close>
  "split sep [] = [Nil]"
| "split sep (c # cs) =
     (if c = sep then [] # split sep cs
      else (case split sep cs of
              [] \<Rightarrow> [c # Nil]
            | w # ws \<Rightarrow> (c # w) # ws))"

section \<open>utils/number.ts\<close>

fun stripLeadingZeros :: "string \<Rightarrow> string" where
  \<comment> \<open>\<open>whole.replace(/^0+(?=\d)/, '')\<close>: a leading zero is removed as long as a digit
      follows it\<close>
  "stripLeadingZeros (c # d # cs) =
     (if c = CHR ''0'' \<and> isDigit d then stripLeadingZeros (d # cs) else c # d # cs)"
| "stripLeadingZeros cs = cs"

definition sanitizeDecimal :: "string \<Rightarrow> bool \<Rightarrow> string" where
  "sanitizeDecimal val allowNegative =
     (if val = [] then []
      else
        let trimmed0 = trim val;
            isNegative = (allowNegative \<and> take 1 trimmed0 = ''-'');
            trimmed = (if isNegative then drop 1 trimmed0 else trimmed0);
            allowed = filter (\<lambda>c. isDigit c \<or> c = CHR ''.'') trimmed
        in if allowed = [] then []
           else
             let parts = split (CHR ''.'') allowed;
                 whole = (case parts of [] \<Rightarrow> [] | w # _ \<Rightarrow> w);
                 rest = (case parts of [] \<Rightarrow> [] | _ # r \<Rightarrow> r);
                 decimals = take 2 (concat rest);
                 normalizedWhole = stripLeadingZeros whole;
                 safeWhole = (if normalizedWhole \<noteq> [] then normalizedWhole
                              else if decimals \<noteq> [] then ''0'' else whole);
                 sanitized = (if decimals \<noteq> [] then safeWhole @ ''.'' @ decimals else safeWhole)
             in if sanitized = [] then []
                else if isNegative then ''-'' @ sanitized else sanitized)"

definition sanitizeAmountInput :: "string \<Rightarrow> string" where
  "sanitizeAmountInput raw = sanitizeDecimal raw False"


text \<open>
  The words of the amount rule: the digits of an input before its first decimal point and
  after it, and the two parts of a normalized amount.
\<close>

definition isAllowed :: "char \<Rightarrow> bool" where
  \<comment> \<open>the characters that \<open>/[^0-9.]/g\<close> leaves in place\<close>
  "isAllowed c = (isDigit c \<or> c = CHR ''.'')"

definition wholeDigits :: "string \<Rightarrow> string" where
  "wholeDigits s = filter isDigit (takeWhile (\<lambda>c. c \<noteq> CHR ''.'') s)"

definition fracDigits :: "string \<Rightarrow> string" where
  "fracDigits s = filter isDigit (tl (dropWhile (\<lambda>c. c \<noteq> CHR ''.'') s))"

definition intPart :: "string \<Rightarrow> string" where
  "intPart r = takeWhile (\<lambda>c. c \<noteq> CHR ''.'') r"

definition fracPart :: "string \<Rightarrow> string" where
  "fracPart r = tl (dropWhile (\<lambda>c. c \<noteq> CHR ''.'') r)"

definition safeWholeOf :: "string \<Rightarrow> string" where
  "safeWholeOf s = (if wholeDigits s = [] then ''0'' else stripLeadingZeros (wholeDigits s))"

section \<open>The \<open>Number\<close> conversion of strings\<close>

text \<open>
  \<open>Number(s)\<close> reads a string by the grammar \<open>StringNumericLiteral\<close> of ECMAScript:
  white space around an optional literal, which is \<open>Infinity\<close> or a decimal literal, both
  with an optional sign, or an unsigned binary, octal or hexadecimal integer. The result
  keeps the exact value of the literal: \<open>Finite neg m e\<close> is \<open>m * 10^e\<close> with the sign
  \<open>neg\<close>. The comparison with zero is the comparison of the double nearest to that value.
\<close>

datatype jsnum = NaN | Infinity bool | Finite bool int int

definition digitVal :: "char \<Rightarrow> int" where
  "digitVal c =
     (if isDigit c then of_char c - 48
      else if c \<in> set ''abcdef'' then of_char c - 87
      else of_char c - 55)"

definition radixValue :: "int \<Rightarrow> string \<Rightarrow> int" where
  "radixValue b ds = foldl (\<lambda>a c. b * a + digitVal c) 0 ds"

definition isHexDigit :: "char \<Rightarrow> bool" where
  "isHexDigit c = (c \<in> set ''0123456789abcdefABCDEF'')"

definition isOctalDigit :: "char \<Rightarrow> bool" where
  "isOctalDigit c = (c \<in> set ''01234567'')"

definition isBinaryDigit :: "char \<Rightarrow> bool" where
  "isBinaryDigit c = (c \<in> set ''01'')"

definition parseNonDecimal :: "string \<Rightarrow> int option" where
  "parseNonDecimal t =
     (case t of
        c0 # c1 # ds \<Rightarrow>
          if c0 = CHR ''0'' \<and> ds \<noteq> [] then
            (if (c1 = CHR ''x'' \<or> c1 = CHR ''X'') \<and> list_all isHexDigit ds
               then Some (radixValue 16 ds)
             else if (c1 = CHR ''o'' \<or> c1 = CHR ''O'') \<and> list_all isOctalDigit ds
               then Some (radixValue 8 ds)
             else if (c1 = CHR ''b'' \<or> c1 = CHR ''B'') \<and> list_all isBinaryDigit ds
               then Some (radixValue 2 ds)
             else None)
          else None
      | _ \<Rightarrow> None)"

definition parseSignedInteger :: "string \<Rightarrow> int option" where
  "parseSignedInteger r =
     (let neg = (take 1 r = ''-'');
          ds = (if take 1 r = ''-'' \<or> take 1 r = ''+'' then drop 1 r else r)
      in if ds \<noteq> [] \<and> list_all isDigit ds
         then Some (if neg then - radixValue 10 ds else radixValue 10 ds)
         else None)"

definition parseExponentPart :: "string \<Rightarrow> int option" where
  \<comment> \<open>the optional \<open>ExponentPart\<close> that ends a decimal literal; \<open>None\<close> when the rest of the
      string is not one\<close>
  "parseExponentPart r =
     (case r of
        [] \<Rightarrow> Some 0
      | c # r1 \<Rightarrow> if c = CHR ''e'' \<or> c = CHR ''E'' then parseSignedInteger r1 else None)"

definition parseUnsignedDecimal :: "bool \<Rightarrow> string \<Rightarrow> jsnum" where
  "parseUnsignedDecimal neg t =
     (if t = ''Infinity'' then Infinity neg
      else
        let ip = takeWhile isDigit t;
            r1 = dropWhile isDigit t;
            hasDot = (take 1 r1 = ''.'');
            fp = (if hasDot then takeWhile isDigit (drop 1 r1) else []);
            r2 = (if hasDot then dropWhile isDigit (drop 1 r1) else r1)
        in if ip = [] \<and> fp = [] then NaN
           else (case parseExponentPart r2 of
                   None \<Rightarrow> NaN
                 | Some e \<Rightarrow> Finite neg (radixValue 10 (ip @ fp)) (e - int (length fp))))"

definition Number :: "string \<Rightarrow> jsnum" where
  "Number s =
     (let t = trim s
      in if t = [] then Finite False 0 0
         else (case parseNonDecimal t of
                 Some n \<Rightarrow> Finite False n 0
               | None \<Rightarrow>
                   if take 1 t = ''-'' then parseUnsignedDecimal True (drop 1 t)
                   else if take 1 t = ''+'' then parseUnsignedDecimal False (drop 1 t)
                   else parseUnsignedDecimal False t))"

definition isNaN :: "jsnum \<Rightarrow> bool" where
  "isNaN n = (n = NaN)"

definition roundsToZero :: "int \<Rightarrow> int \<Rightarrow> bool" where
  \<comment> \<open>the double nearest to \<open>m * 10^e\<close> is zero: the value is at most \<open>2^-1075\<close>, half of
      the least positive double (a tie goes to the even significand, which is zero)\<close>
  "roundsToZero m e = (if 0 \<le> e then m = 0 else m * 2 ^ 1075 \<le> 10 ^ nat (- e))"

fun leZero :: "jsnum \<Rightarrow> bool" where
  \<comment> \<open>\<open>n <= 0\<close>\<close>
  "leZero NaN = False"
| "leZero (Infinity neg) = neg"
| "leZero (Finite neg m e) = (neg \<or> roundsToZero m e)"

fun strictlyPositive :: "jsnum \<Rightarrow> bool" where
  \<comment> \<open>the value that the string denotes is greater than zero\<close>
  "strictlyPositive NaN = False"
| "strictlyPositive (Infinity neg) = (\<not> neg)"
| "strictlyPositive (Finite neg m e) = (\<not> neg \<and> 0 < m)"

section \<open>utils/datetime.ts\<close>

text \<open>
  The clock and the \<open>Date\<close> object belong to the platform. \<open>DateEnv\<close> holds what the
  functions read from it: the time value that \<open>new Date(s)\<close> parses from a string (\<open>None\<close>
  for an invalid date, whose time value is \<open>NaN\<close>), the time value of \<open>new Date()\<close>, the
  local calendar fields of \<open>new Date()\<close>, and the text that \<open>toISOString\<close> gives for a
  time value.
\<close>

record LocalFields =
  getFullYear :: int
  getMonth :: nat
  getDate :: nat
  getHours :: nat
  getMinutes :: nat

record DateEnv =
  dateParse :: "string \<Rightarrow> int option"
  dateNow :: int
  localNow :: LocalFields
  isoFormat :: "int \<Rightarrow> string"

datatype Date = Date (getTime: "int option")

datatype jsError = RangeError

definition newDate :: "DateEnv \<Rightarrow> Date" where
  "newDate env = Date (Some (dateNow env))"

definition newDateOf :: "DateEnv \<Rightarrow> string \<Rightarrow> Date" where
  "newDateOf env s = Date (dateParse env s)"

definition toISOString :: "DateEnv \<Rightarrow> Date \<Rightarrow> jsError + string" where
  \<comment> \<open>\<open>Date.prototype.toISOString\<close> throws a \<open>RangeError\<close> on an invalid date\<close>
  "toISOString env d = (case getTime d of None \<Rightarrow> Inl RangeError | Some t \<Rightarrow> Inr (isoFormat env t))"

function natToString :: "nat \<Rightarrow> string" where
  "natToString n =
     (if n < 10 then [''0123456789'' ! n]
      else natToString (n div 10) @ [''0123456789'' ! (n mod 10)])"
  by pat_completeness auto
termination
  by (relation "measure id") auto

definition numToString :: "int \<Rightarrow> string" where
  \<comment> \<open>\<open>value.toString()\<close> of an integer\<close>
  "numToString i = (if i < 0 then CHR ''-'' # natToString (nat (- i)) else natToString (nat i))"

definition pad :: "nat \<Rightarrow> string" where
  \<comment> \<open>\<open>value.toString().padStart(2, '0')\<close>\<close>
  "pad v = replicate (2 - length (natToString v)) (CHR ''0'') @ natToString v"

definition toDate :: "DateEnv \<Rightarrow> string option \<Rightarrow> Date option" where
  "toDate env v =
     (case v of
        None \<Rightarrow> None
      | Some s \<Rightarrow>
          if s = [] then None
          else (let date = newDateOf env s in if getTime date = None then None else Some date))"

definition isoDate :: "int \<Rightarrow> nat \<Rightarrow> nat \<Rightarrow> string" where
  \<comment> \<open>the template \<open>`${year}-${pad(month)}-${pad(day)}`\<close>\<close>
  "isoDate y m d = numToString y @ ''-'' @ pad m @ ''-'' @ pad d"

definition getTodayIsoDate :: "DateEnv \<Rightarrow> string" where
  "getTodayIsoDate env =
     (let today = localNow env in isoDate (getFullYear today) (getMonth today + 1) (getDate today))"

definition isFutureDate :: "DateEnv \<Rightarrow> string option \<Rightarrow> bool" where
  "isFutureDate env dateValue =
     (case dateValue of
        None \<Rightarrow> False
      | Some d \<Rightarrow> if d = [] then False else d > getTodayIsoDate env)"

definition toIsoString :: "DateEnv \<Rightarrow> string option \<Rightarrow> jsError + string" where
  "toIsoString env localValue =
     toISOString env (case toDate env localValue of None \<Rightarrow> newDate env | Some date \<Rightarrow> date)"

definition combineDateAndTime :: "DateEnv \<Rightarrow> string \<Rightarrow> string option \<Rightarrow> jsError + string" where
  "combineDateAndTime env date time =
     (if date = [] then toISOString env (newDate env)
      else
        let safeTime = (case time of
                          None \<Rightarrow> ''00:00''
                        | Some t \<Rightarrow> if t \<noteq> [] \<and> trim t \<noteq> [] then t else ''00:00'');
            composed = date @ ''T'' @ safeTime;
            parsed = newDateOf env composed
        in if getTime parsed = None then toISOString env (newDate env) else toISOString env parsed)"

definition getCurrentTimeInput :: "DateEnv \<Rightarrow> string" where
  "getCurrentTimeInput env = pad (getHours (localNow env)) @ '':'' @ pad (getMinutes (localNow env))"

text \<open>
  An instant of the local calendar, to minutes, and the order of two of them; \<open>nowInstant\<close>
  is the instant that the clock shows.
\<close>

type_synonym instant = "int \<times> nat \<times> nat \<times> nat \<times> nat"

fun instantAfter :: "instant \<Rightarrow> instant \<Rightarrow> bool" where
  "instantAfter (y, m, d, h, mi) (y', m', d', h', mi') =
     (y' < y \<or> (y = y' \<and> (m' < m \<or> (m = m' \<and> (d' < d \<or> (d = d' \<and> (h' < h \<or> (h = h' \<and> mi' < mi))))))))"

definition nowInstant :: "DateEnv \<Rightarrow> instant" where
  "nowInstant env =
     (let n = localNow env in (getFullYear n, getMonth n + 1, getDate n, getHours n, getMinutes n))"

fun dateAfter :: "int \<times> nat \<times> nat \<Rightarrow> int \<times> nat \<times> nat \<Rightarrow> bool" where
  "dateAfter (y, m, d) (y', m', d') = (y' < y \<or> (y = y' \<and> (m' < m \<or> (m = m' \<and> d' < d))))"


section \<open>components/ExpenseForm.tsx and components/IncomeForm.tsx\<close>

record ExpenseFormState =
  amount :: string
  currency :: string
  category :: string
  payment_method :: string
  incurred_date :: string
  incurred_time :: string
  description :: string
  merchant :: string
  tags :: string
  receipt_image_path :: string

text \<open>
  \<open>ExpenseFormErrors\<close> is a partial record: a key is present when its field here is
  \<open>Some\<close> message.
\<close>

record ExpenseFormErrors =
  errAmount :: "string option"
  errCategory :: "string option"
  errPaymentMethod :: "string option"
  errIncurredDate :: "string option"

record ExpenseValidationResult =
  errors :: ExpenseFormErrors
  hasFutureDateError :: bool

definition validateExpense :: "DateEnv \<Rightarrow> ExpenseFormState \<Rightarrow> ExpenseValidationResult" where
  "validateExpense env state =
     (let amountValue = Number (amount state);
          future = (incurred_date state \<noteq> [] \<and> isFutureDate env (Some (incurred_date state)))
      in \<lparr>errors =
            \<lparr>errAmount =
               (if trim (amount state) = [] then Some ''Amount is required.''
                else if isNaN amountValue \<or> leZero amountValue then Some ''Enter a positive amount.''
                else None),
             errCategory =
               (if trim (category state) = [] then Some ''Select or create a category.'' else None),
             errPaymentMethod =
               (if trim (payment_method state) = [] then Some ''Choose a payment method.'' else None),
             errIncurredDate =
               (if incurred_date state = [] then Some ''Date is required.''
                else if future then Some ''Incurred date cannot be in the future.''
                else None)\<rparr>,
          hasFutureDateError = future\<rparr>)"

definition errorKeys :: "ExpenseFormErrors \<Rightarrow> string list" where
  \<comment> \<open>\<open>Object.keys(validationErrors)\<close>\<close>
  "errorKeys e =
     (if errAmount e \<noteq> None then [''amount''] else []) @
     (if errCategory e \<noteq> None then [''category''] else []) @
     (if errPaymentMethod e \<noteq> None then [''payment_method''] else []) @
     (if errIncurredDate e \<noteq> None then [''incurred_date''] else [])"

definition orUndefined :: "string \<Rightarrow> string option" where
  \<comment> \<open>\<open>value || undefined\<close>\<close>
  "orUndefined v = (if v \<noteq> [] then Some v else None)"

definition submittedTags :: "string \<Rightarrow> string list option" where
  \<comment> \<open>the \<open>tags\<close> entry of the payload, the same expression in both forms\<close>
  "submittedTags ts =
     (if ts \<noteq> [] then Some (filter (\<lambda>tag. tag \<noteq> []) (map trim (split (CHR '','') ts))) else None)"

record ExpensePayload =
  payloadAmount :: string
  payloadCurrency :: string
  payloadCategory :: string
  payloadPaymentMethod :: string
  payloadIncurredAt :: string
  payloadDescription :: "string option"
  payloadMerchant :: "string option"
  payloadTags :: "string list option"
  payloadReceiptImagePath :: "string option"

text \<open>
  \<open>handleSubmit\<close> ends in one of three ways: it returns before \<open>onSubmit\<close> with the form
  error set, an exception leaves it, or it calls \<open>onSubmit\<close> with the payload.
  \<open>String.prototype.toUpperCase\<close> belongs to the platform and is a parameter.
\<close>

datatype 'p submitResult = NotSubmitted string | Threw jsError | Submitted 'p

definition handleSubmit ::
  "(string \<Rightarrow> string) \<Rightarrow> DateEnv \<Rightarrow> ExpenseFormState \<Rightarrow> ExpensePayload submitResult" where
  "handleSubmit toUpperCase env state =
     (if errorKeys (errors (validateExpense env state)) \<noteq> []
      then NotSubmitted ''Please correct the highlighted fields.''
      else (case combineDateAndTime env (incurred_date state) (Some (incurred_time state)) of
              Inl e \<Rightarrow> Threw e
            | Inr combined \<Rightarrow>
                (case toIsoString env (Some combined) of
                   Inl e \<Rightarrow> Threw e
                 | Inr at \<Rightarrow>
                     Submitted
                       \<lparr>payloadAmount = amount state,
                        payloadCurrency = toUpperCase (currency state),
                        payloadCategory = category state,
                        payloadPaymentMethod = payment_method state,
                        payloadIncurredAt = at,
                        payloadDescription = orUndefined (description state),
                        payloadMerchant = orUndefined (merchant state),
                        payloadTags = submittedTags (tags state),
                        payloadReceiptImagePath = orUndefined (receipt_image_path state)\<rparr>)))"

record IncomeFormState =
  incomeAmount :: string
  incomeCurrency :: string
  source :: string
  received_method :: string
  received_date :: string
  received_time :: string
  incomeDescription :: string
  incomeTags :: string
  attachment_path :: string

record IncomeFormErrors =
  errIncomeAmount :: "string option"
  errSource :: "string option"
  errReceivedMethod :: "string option"
  errReceivedDate :: "string option"

record IncomeValidationResult =
  incomeErrors :: IncomeFormErrors
  incomeHasFutureDateError :: bool

definition validateIncome :: "DateEnv \<Rightarrow> IncomeFormState \<Rightarrow> IncomeValidationResult" where
  "validateIncome env state =
     (let amountValue = Number (incomeAmount state);
          future = (received_date state \<noteq> [] \<and> isFutureDate env (Some (received_date state)))
      in \<lparr>incomeErrors =
            \<lparr>errIncomeAmount =
               (if trim (incomeAmount state) = [] then Some ''Amount is required.''
                else if isNaN amountValue \<or> leZero amountValue then Some ''Enter a positive amount.''
                else None),
             errSource =
               (if trim (source state) = [] then Some ''Source is required.'' else None),
             errReceivedMethod =
               (if trim (received_method state) = [] then Some ''Choose a received method.'' else None),
             errReceivedDate =
               (if received_date state = [] then Some ''Date is required.''
                else if future then Some ''Received date cannot be in the future.''
                else None)\<rparr>,
          incomeHasFutureDateError = future\<rparr>)"

definition incomeErrorKeys :: "IncomeFormErrors \<Rightarrow> string list" where
  "incomeErrorKeys e =
     (if errIncomeAmount e \<noteq> None then [''amount''] else []) @
     (if errSource e \<noteq> None then [''source''] else []) @
     (if errReceivedMethod e \<noteq> None then [''received_method''] else []) @
     (if errReceivedDate e \<noteq> None then [''received_date''] else [])"

record IncomePayload =
  incomePayloadAmount :: string
  incomePayloadCurrency :: string
  incomePayloadSource :: string
  incomePayloadReceivedMethod :: string
  incomePayloadReceivedAt :: string
  incomePayloadDescription :: "string option"
  incomePayloadTags :: "string list option"
  incomePayloadAttachmentPath :: "string option"

definition handleIncomeSubmit ::
  "(string \<Rightarrow> string) \<Rightarrow> DateEnv \<Rightarrow> IncomeFormState \<Rightarrow> IncomePayload submitResult" where
  \<comment> \<open>\<open>handleSubmit\<close> of IncomeForm.tsx\<close>
  "handleIncomeSubmit toUpperCase env state =
     (if incomeErrorKeys (incomeErrors (validateIncome env state)) \<noteq> []
      then NotSubmitted ''Please correct the highlighted fields.''
      else (case combineDateAndTime env (received_date state) (Some (received_time state)) of
              Inl e \<Rightarrow> Threw e
            | Inr combined \<Rightarrow>
                (case toIsoString env (Some combined) of
                   Inl e \<Rightarrow> Threw e
                 | Inr at \<Rightarrow>
                     Submitted
                       \<lparr>incomePayloadAmount = incomeAmount state,
                        incomePayloadCurrency = toUpperCase (incomeCurrency state),
                        incomePayloadSource = source state,
                        incomePayloadReceivedMethod = received_method state,
                        incomePayloadReceivedAt = at,
                        incomePayloadDescription = orUndefined (incomeDescription state),
                        incomePayloadTags = submittedTags (incomeTags state),
                        incomePayloadAttachmentPath = orUndefined (attachment_path state)\<rparr>)))"

section \<open>utils/errors.ts\<close>

text \<open>
  What a failed request throws: an \<open>AxiosError\<close> with the \<open>error\<close> and \<open>details\<close> of the
  response body, when there are any, and its own message; another \<open>Error\<close>; or a value
  that is no \<open>Error\<close>.
\<close>

datatype thrown = AxiosError "string option" "string option" string | Error string | NoError

fun getApiErrorMessage :: "thrown \<Rightarrow> string" where
  "getApiErrorMessage (AxiosError respError details msg) =
     (let message = (case respError of None \<Rightarrow> msg | Some e \<Rightarrow> e)
      in case details of
           None \<Rightarrow> message
         | Some d \<Rightarrow> if d \<noteq> [] then message @ '': '' @ d else message)"
| "getApiErrorMessage (Error msg) = msg"
| "getApiErrorMessage NoError = ''Unexpected error occurred''"

section \<open>hooks/useExpenses.ts and hooks/useIncomes.ts\<close>

text \<open>
  The server is reached through \<open>api\<close>. A request is a function of the state \<open>'w\<close> of the
  world behind the transport: it gives the response, or what the request throws, and the
  state after it. The hooks never look into an item or a payload, so both are type
  parameters. A list response \<open>{items, total}\<close> is the pair of the two.

  The state of a hook is the record of its \<open>useState\<close> cells; an operation is given by
  the cells after it has settled, together with what it returns or throws.
\<close>

record ('w, 'i, 'p) Api =
  apiGet :: "'w \<Rightarrow> (thrown + 'i list \<times> string) \<times> 'w"
  apiPost :: "'p \<Rightarrow> 'w \<Rightarrow> (thrown + 'i) \<times> 'w"
  apiPut :: "string \<Rightarrow> 'p \<Rightarrow> 'w \<Rightarrow> (thrown + 'i) \<times> 'w"
  apiDelete :: "string \<Rightarrow> 'w \<Rightarrow> (thrown + unit) \<times> 'w"

record 'i ListState =
  items :: "'i list"
  total :: string
  loading :: bool
  submitting :: bool
  error :: "string option"

definition initialListState :: "'i ListState" where
  "initialListState = \<lparr>items = [], total = ''0.00'', loading = False, submitting = False, error = None\<rparr>"

definition useExpenses_refresh :: "('w, 'i, 'p) Api \<Rightarrow> 'i ListState \<Rightarrow> 'w \<Rightarrow> 'i ListState \<times> 'w" where
  "useExpenses_refresh api st w =
     (case apiGet api (w) of
        (Inr (its, tot), w') \<Rightarrow> (st\<lparr>items := its, total := tot, error := None, loading := False\<rparr>, w')
      | (Inl err, w') \<Rightarrow> (st\<lparr>error := Some (getApiErrorMessage err), loading := False\<rparr>, w'))"

definition useExpenses_create ::
  "('w, 'i, 'p) Api \<Rightarrow> 'p \<Rightarrow> 'i ListState \<Rightarrow> 'w \<Rightarrow> (thrown + unit) \<times> 'i ListState \<times> 'w" where
  "useExpenses_create api payload st w =
     (case apiPost api payload w of
        (Inl err, w1) \<Rightarrow>
          (Inl err, st\<lparr>error := Some (getApiErrorMessage err), submitting := False\<rparr>, w1)
      | (Inr _, w1) \<Rightarrow>
          (case useExpenses_refresh api (st\<lparr>submitting := True\<rparr>) w1 of
             (st2, w2) \<Rightarrow> (Inr (), st2\<lparr>error := None, submitting := False\<rparr>, w2)))"

definition useExpenses_update ::
  "('w, 'i, 'p) Api \<Rightarrow> string \<Rightarrow> 'p \<Rightarrow> 'i ListState \<Rightarrow> 'w \<Rightarrow> (thrown + unit) \<times> 'i ListState \<times> 'w" where
  "useExpenses_update api ident payload st w =
     (case apiPut api ident payload w of
        (Inl err, w1) \<Rightarrow>
          (Inl err, st\<lparr>error := Some (getApiErrorMessage err), submitting := False\<rparr>, w1)
      | (Inr _, w1) \<Rightarrow>
          (case useExpenses_refresh api (st\<lparr>submitting := True\<rparr>) w1 of
             (st2, w2) \<Rightarrow> (Inr (), st2\<lparr>error := None, submitting := False\<rparr>, w2)))"

definition useExpenses_remove ::
  "('w, 'i, 'p) Api \<Rightarrow> string \<Rightarrow> 'i ListState \<Rightarrow> 'w \<Rightarrow> (thrown + unit) \<times> 'i ListState \<times> 'w" where
  "useExpenses_remove api ident st w =
     (case apiDelete api ident w of
        (Inl err, w1) \<Rightarrow>
          (Inl err, st\<lparr>error := Some (getApiErrorMessage err), submitting := False\<rparr>, w1)
      | (Inr _, w1) \<Rightarrow>
          (case useExpenses_refresh api (st\<lparr>submitting := True\<rparr>) w1 of
             (st2, w2) \<Rightarrow> (Inr (), st2\<lparr>error := None, submitting := False\<rparr>, w2)))"

text \<open>
  \<open>useIncomes\<close> is the same code on the routes of \<open>/incomes\<close>; its \<open>api\<close> is the record
  of those routes.
\<close>

definition useIncomes_refresh :: "('w, 'i, 'p) Api \<Rightarrow> 'i ListState \<Rightarrow> 'w \<Rightarrow> 'i ListState \<times> 'w" where
  "useIncomes_refresh api st w =
     (case apiGet api (w) of
        (Inr (its, tot), w') \<Rightarrow> (st\<lparr>items := its, total := tot, error := None, loading := False\<rparr>, w')
      | (Inl err, w') \<Rightarrow> (st\<lparr>error := Some (getApiErrorMessage err), loading := False\<rparr>, w'))"

definition useIncomes_create ::
  "('w, 'i, 'p) Api \<Rightarrow> 'p \<Rightarrow> 'i ListState \<Rightarrow> 'w \<Rightarrow> (thrown + unit) \<times> 'i ListState \<times> 'w" where
  "useIncomes_create api payload st w =
     (case apiPost api payload w of
        (Inl err, w1) \<Rightarrow>
          (Inl err, st\<lparr>error := Some (getApiErrorMessage err), submitting := False\<rparr>, w1)
      | (Inr _, w1) \<Rightarrow>
          (case useIncomes_refresh api (st\<lparr>submitting := True\<rparr>) w1 of
             (st2, w2) \<Rightarrow> (Inr (), st2\<lparr>error := None, submitting := False\<rparr>, w2)))"

definition useIncomes_update ::
  "('w, 'i, 'p) Api \<Rightarrow> string \<Rightarrow> 'p \<Rightarrow> 'i ListState \<Rightarrow> 'w \<Rightarrow> (thrown + unit) \<times> 'i ListState \<times> 'w" where
  "useIncomes_update api ident payload st w =
     (case apiPut api ident payload w of
        (Inl err, w1) \<Rightarrow>
          (Inl err, st\<lparr>error := Some (getApiErrorMessage err), submitting := False\<rparr>, w1)
      | (Inr _, w1) \<Rightarrow>
          (case useIncomes_refresh api (st\<lparr>submitting := True\<rparr>) w1 of
             (st2, w2) \<Rightarrow> (Inr (), st2\<lparr>error := None, submitting := False\<rparr>, w2)))"

definition useIncomes_remove ::
  "('w, 'i, 'p) Api \<Rightarrow> string \<Rightarrow> 'i ListState \<Rightarrow> 'w \<Rightarrow> (thrown + unit) \<times> 'i ListState \<times> 'w" where
  "useIncomes_remove api ident st w =
     (case apiDelete api ident w of
        (Inl err, w1) \<Rightarrow>
          (Inl err, st\<lparr>error := Some (getApiErrorMessage err), submitting := False\<rparr>, w1)
      | (Inr _, w1) \<Rightarrow>
          (case useIncomes_refresh api (st\<lparr>submitting := True\<rparr>) w1 of
             (st2, w2) \<Rightarrow> (Inr (), st2\<lparr>error := None, submitting := False\<rparr>, w2)))"

section \<open>hooks/useCategories.ts\<close>

record Category =
  id' :: string
  name :: string

text \<open>
  \<open>a.localeCompare(b, undefined, {sensitivity: 'base'})\<close> is the collation of the platform
  in the locale of the user. It is a parameter \<open>localeCompare\<close> of \<open>sortCategories\<close> and of
  the operations of the hook: a function of two names that gives a negative number, zero or
  a positive number.
\<close>

text \<open>
  \<open>Array.prototype.sort\<close> is a stable sort. With a comparator that is consistent its
  result does not depend on the algorithm; it is modelled by insertion, from the right, of
  each element before the first element that it does not follow.
\<close>

fun insertBy :: "('a \<Rightarrow> 'a \<Rightarrow> int) \<Rightarrow> 'a \<Rightarrow> 'a list \<Rightarrow> 'a list" where
  "insertBy cmp x [] = [x]"
| "insertBy cmp x (y # ys) = (if cmp x y \<le> 0 then x # y # ys else y # insertBy cmp x ys)"

definition arraySort :: "('a \<Rightarrow> 'a \<Rightarrow> int) \<Rightarrow> 'a list \<Rightarrow> 'a list" where
  "arraySort cmp xs = foldr (insertBy cmp) xs []"

definition sortCategories :: "(string \<Rightarrow> string \<Rightarrow> int) \<Rightarrow> Category list \<Rightarrow> Category list" where
  "sortCategories localeCompare its = arraySort (\<lambda>a b. localeCompare (name a) (name b)) its"

record 'w CategoryApi =
  categoriesGet :: "'w \<Rightarrow> (thrown + Category list) \<times> 'w"
  categoriesPost :: "string \<Rightarrow> 'w \<Rightarrow> (thrown + Category) \<times> 'w"
  categoriesPut :: "string \<Rightarrow> string \<Rightarrow> 'w \<Rightarrow> (thrown + Category) \<times> 'w"
  categoriesDelete :: "string \<Rightarrow> 'w \<Rightarrow> (thrown + unit) \<times> 'w"

record CategoryState =
  categoryItems :: "Category list"
  categoryLoading :: bool
  categorySubmitting :: bool
  categoryError :: "string option"

definition useCategories_refresh ::
  "(string \<Rightarrow> string \<Rightarrow> int) \<Rightarrow> 'w CategoryApi \<Rightarrow> CategoryState \<Rightarrow> 'w \<Rightarrow> CategoryState \<times> 'w" where
  "useCategories_refresh localeCompare api st w =
     (case categoriesGet api w of
        (Inr its, w') \<Rightarrow>
          (st\<lparr>categoryItems := sortCategories localeCompare its, categoryError := None, categoryLoading := False\<rparr>, w')
      | (Inl err, w') \<Rightarrow>
          (st\<lparr>categoryError := Some (getApiErrorMessage err), categoryLoading := False\<rparr>, w'))"

definition useCategories_create ::
  "(string \<Rightarrow> string \<Rightarrow> int) \<Rightarrow> 'w CategoryApi \<Rightarrow> string \<Rightarrow> CategoryState \<Rightarrow> 'w
     \<Rightarrow> (thrown + Category) \<times> CategoryState \<times> 'w" where
  \<comment> \<open>the payload \<open>{name}\<close> is given by its name\<close>
  "useCategories_create localeCompare api payload st w =
     (case categoriesPost api payload w of
        (Inr data, w1) \<Rightarrow>
          (Inr data,
           st\<lparr>categoryItems := sortCategories localeCompare (categoryItems st @ [data]),
              categoryError := None, categorySubmitting := False\<rparr>, w1)
      | (Inl err, w1) \<Rightarrow>
          (Inl err, st\<lparr>categoryError := Some (getApiErrorMessage err), categorySubmitting := False\<rparr>, w1))"

definition useCategories_update ::
  "(string \<Rightarrow> string \<Rightarrow> int) \<Rightarrow> 'w CategoryApi \<Rightarrow> string \<Rightarrow> string \<Rightarrow> CategoryState \<Rightarrow> 'w
     \<Rightarrow> (thrown + Category) \<times> CategoryState \<times> 'w" where
  "useCategories_update localeCompare api ident payload st w =
     (case categoriesPut api ident payload w of
        (Inr data, w1) \<Rightarrow>
          (Inr data,
           st\<lparr>categoryItems :=
                sortCategories localeCompare
                  (map (\<lambda>item. if id' item = ident then data else item) (categoryItems st)),
              categoryError := None, categorySubmitting := False\<rparr>, w1)
      | (Inl err, w1) \<Rightarrow>
          (Inl err, st\<lparr>categoryError := Some (getApiErrorMessage err), categorySubmitting := False\<rparr>, w1))"

definition useCategories_remove ::
  "'w CategoryApi \<Rightarrow> string \<Rightarrow> CategoryState \<Rightarrow> 'w \<Rightarrow> (thrown + unit) \<times> CategoryState \<times> 'w" where
  "useCategories_remove api ident st w =
     (case categoriesDelete api ident w of
        (Inr _, w1) \<Rightarrow>
          (Inr (),
           st\<lparr>categoryItems := filter (\<lambda>item. id' item \<noteq> ident) (categoryItems st),
              categoryError := None, categorySubmitting := False\<rparr>, w1)
      | (Inl err, w1) \<Rightarrow>
          (Inl err, st\<lparr>categoryError := Some (getApiErrorMessage err), categorySubmitting := False\<rparr>, w1))"

section \<open>Words of the claims and sample inputs\<close>

text \<open>
  \<open>joinWith\<close> is \<open>Array.prototype.join\<close> with a separator of one code unit: the inverse
  of \<open>split\<close>. A tag is trimmed when it is not empty and neither begins nor ends with
  white space.
\<close>

fun joinWith :: "char \<Rightarrow> string list \<Rightarrow> string" where
  "joinWith sep [] = []"
| "joinWith sep [x] = x"
| "joinWith sep (x # y # ys) = x @ sep # joinWith sep (y # ys)"

definition isTrimmedTag :: "string \<Rightarrow> bool" where
  "isTrimmedTag t = (t \<noteq> [] \<and> \<not> isWhiteSpace (hd t) \<and> \<not> isWhiteSpace (last t))"

text \<open>
  A date of the form \<open>YYYY-MM-DD\<close> with a year of four digits, as a date input gives it,
  and the calendar day that the clock shows.
\<close>

definition wellFormedDate :: "int \<Rightarrow> nat \<Rightarrow> nat \<Rightarrow> bool" where
  "wellFormedDate y m d = (1000 \<le> y \<and> y \<le> 9999 \<and> 1 \<le> m \<and> m \<le> 12 \<and> 1 \<le> d \<and> d \<le> 31)"

definition todayOf :: "DateEnv \<Rightarrow> int \<times> nat \<times> nat" where
  "todayOf env = (getFullYear (localNow env), getMonth (localNow env) + 1, getDate (localNow env))"

text \<open>
  A clock at 10:00 on 10 May 2024 that parses the one string \<open>2024-05-10T00:00\<close>, and
  form states that differ in the amount, the date and the time.
\<close>

definition exampleEnv :: DateEnv where
  "exampleEnv =
     \<lparr>dateParse = (\<lambda>s. if s = ''2024-05-10T00:00'' then Some 1715299200000 else None),
      dateNow = 1715335200000,
      localNow = \<lparr>getFullYear = 2024, getMonth = 4, getDate = 10, getHours = 10, getMinutes = 0\<rparr>,
      isoFormat = (\<lambda>t. if t = 1715299200000 then ''2024-05-10T00:00:00.000Z''
                       else ''2024-05-10T10:00:00.000Z'')\<rparr>"

definition exampleExpense :: "string \<Rightarrow> string \<Rightarrow> string \<Rightarrow> ExpenseFormState" where
  "exampleExpense a d t =
     \<lparr>amount = a, currency = ''USD'', category = ''Food'', payment_method = ''cash'',
      incurred_date = d, incurred_time = t, description = [], merchant = [],
      tags = [], receipt_image_path = []\<rparr>"

definition exampleIncome :: "string \<Rightarrow> string \<Rightarrow> string \<Rightarrow> IncomeFormState" where
  "exampleIncome a d t =
     \<lparr>incomeAmount = a, incomeCurrency = ''USD'', source = ''Job'', received_method = ''salary'',
      received_date = d, received_time = t, incomeDescription = [], incomeTags = [],
      attachment_path = []\<rparr>"

text \<open>
  The time value that \<open>new Date(s)\<close> has when it is valid, and the current one otherwise;
  the time that \<open>combineDateAndTime\<close> composes with the date.
\<close>

definition timeValueOf :: "DateEnv \<Rightarrow> string \<Rightarrow> int" where
  "timeValueOf env s = (case dateParse env s of None \<Rightarrow> dateNow env | Some v \<Rightarrow> v)"

definition safeTimeOf :: "string option \<Rightarrow> string" where
  "safeTimeOf time = (case time of None \<Rightarrow> ''00:00'' | Some t \<Rightarrow> if trim t = [] then ''00:00'' else t)"

text \<open>
  Names that are equal up to the case of the letters A to Z have the same \<open>asciiLower\<close>.
  \<open>asciiCompare\<close> is a sample of \<open>localeCompare\<close>: it compares two names code unit by code
  unit after \<open>asciiLower\<close>, as the collations of most locales do on names of unaccented
  letters. \<open>asciiUpperCase\<close> is a sample of \<open>toUpperCase\<close>, on the letters a to z.
\<close>

definition asciiLower :: "string \<Rightarrow> string" where
  "asciiLower s =
     map (\<lambda>c. case map_of (zip ''ABCDEFGHIJKLMNOPQRSTUVWXYZ'' ''abcdefghijklmnopqrstuvwxyz'') c of
                 None \<Rightarrow> c | Some l \<Rightarrow> l) s"

definition asciiCompare :: "string \<Rightarrow> string \<Rightarrow> int" where
  "asciiCompare a b =
     (if asciiLower a < asciiLower b then - 1 else if asciiLower b < asciiLower a then 1 else 0)"

definition asciiUpperCase :: "string \<Rightarrow> string" where
  "asciiUpperCase s =
     map (\<lambda>c. case map_of (zip ''abcdefghijklmnopqrstuvwxyz'' ''ABCDEFGHIJKLMNOPQRSTUVWXYZ'') c of
                 None \<Rightarrow> c | Some u \<Rightarrow> u) s"

text \<open>
  Sample servers. For the ledger routes: one whose requests all fail, and one that accepts a
  mutation and then lists two items. For the category routes: a server that already holds the
  category \<open>Food\<close>, unknown to the client, creates \<open>Travel\<close> and would list both.
\<close>

definition failingApi :: "(unit, string, string) Api" where
  "failingApi =
     \<lparr>apiGet = (\<lambda>w. (Inl (Error ''Network Error''), w)),
      apiPost = (\<lambda>p w. (Inl (AxiosError (Some ''Validation failed'') (Some ''amount'') ''Request failed''), w)),
      apiPut = (\<lambda>i p w. (Inl (Error ''Network Error''), w)),
      apiDelete = (\<lambda>i w. (Inl NoError, w))\<rparr>"

definition listingApi :: "(unit, string, string) Api" where
  "listingApi =
     \<lparr>apiGet = (\<lambda>w. (Inr ([''rent'', ''coffee''], ''15.75''), w)),
      apiPost = (\<lambda>p w. (Inr p, w)),
      apiPut = (\<lambda>i p w. (Inr p, w)),
      apiDelete = (\<lambda>i w. (Inr (), w))\<rparr>"

definition sharedCategoryApi :: "unit CategoryApi" where
  "sharedCategoryApi =
     \<lparr>categoriesGet = (\<lambda>w. (Inr [\<lparr>id' = ''1'', name = ''Food''\<rparr>, \<lparr>id' = ''2'', name = ''Travel''\<rparr>], w)),
      categoriesPost = (\<lambda>n w. (Inr \<lparr>id' = ''2'', name = n\<rparr>, w)),
      categoriesPut = (\<lambda>i n w. (Inr \<lparr>id' = i, name = n\<rparr>, w)),
      categoriesDelete = (\<lambda>i w. (Inr (), w))\<rparr>"

definition emptyCategoryState :: CategoryState where
  "emptyCategoryState =
     \<lparr>categoryItems = [], categoryLoading = False, categorySubmitting = False, categoryError = None\<rparr>"

definition heldState :: "string ListState" where
  "heldState = \<lparr>items = [''rent''], total = ''10.50'', loading = False, submitting = False, error = None\<rparr>"

section \<open>Amount normalization\<close>

lemma dot_not_digit [simp]: "\<not> isDigit (CHR ''.'')" by (simp add: isDigit_def)
lemma ws_not_digit: "isWhiteSpace c \<Longrightarrow> \<not> isDigit c" by (auto simp add: isDigit_def isWhiteSpace_def)
lemma ws_not_dot: "isWhiteSpace c \<Longrightarrow> c \<noteq> CHR ''.''" by (auto simp add: isWhiteSpace_def)

lemma filter_dropWhile_disjoint:
  "(\<And>c. P c \<Longrightarrow> \<not> Q c) \<Longrightarrow> filter P (dropWhile Q xs) = filter P xs"
  by (induction xs) auto

lemma filter_trim:
  assumes "\<And>c. P c \<Longrightarrow> \<not> isWhiteSpace c"
  shows "filter P (trim s) = filter P s"
proof -
  have "filter P (trim s) = rev (filter P (dropWhile isWhiteSpace (rev (dropWhile isWhiteSpace s))))"
    by (simp add: trim_def rev_filter)
  also have "\<dots> = rev (filter P (rev (dropWhile isWhiteSpace s)))"
    using assms by (simp add: filter_dropWhile_disjoint)
  also have "\<dots> = filter P (dropWhile isWhiteSpace s)"
    by (simp add: rev_filter)
  also have "\<dots> = filter P s"
    using assms by (simp add: filter_dropWhile_disjoint)
  finally show ?thesis .
qed

lemma split_not_Nil [simp]: "split sep s \<noteq> []"
  by (induction s) (auto split: list.splits)

lemma hd_split: "hd (split sep s) = takeWhile (\<lambda>c. c \<noteq> sep) s"
  by (induction s) (auto split: list.splits)

lemma concat_tl_split:
  "concat (tl (split sep s)) = filter (\<lambda>c. c \<noteq> sep) (tl (dropWhile (\<lambda>c. c \<noteq> sep) s))"
proof (induction s)
  case Nil show ?case by simp
next
  case (Cons c cs)
  show ?case
  proof (cases "c = sep")
    case True
    have "concat (split sep cs) = filter (\<lambda>c. c \<noteq> sep) cs"
      by (induction cs) (auto split: list.splits)
    with True show ?thesis by simp
  next
    case False
    with Cons show ?thesis by (auto split: list.splits)
  qed
qed

lemma takeWhile_filter_allowed:
  "takeWhile (\<lambda>c. c \<noteq> CHR ''.'') (filter isAllowed s) = wholeDigits s"
  unfolding wholeDigits_def by (induction s) (auto simp: isAllowed_def)

lemma dropWhile_filter_allowed:
  "filter (\<lambda>c. c \<noteq> CHR ''.'') (tl (dropWhile (\<lambda>c. c \<noteq> CHR ''.'') (filter isAllowed s))) = fracDigits s"
  unfolding fracDigits_def
proof (induction s)
  case Nil show ?case by simp
next
  case (Cons c cs)
  have "filter (\<lambda>c. c \<noteq> CHR ''.'') (filter isAllowed cs) = filter isDigit cs"
    by (induction cs) (auto simp: isAllowed_def)
  with Cons show ?case by (auto simp: isAllowed_def)
qed

lemma stripLeadingZeros_Nil_iff [simp]: "stripLeadingZeros w = [] \<longleftrightarrow> w = []"
  by (induction w rule: stripLeadingZeros.induct) auto

lemma sanitizeDecimal_unfold:
  assumes "s \<noteq> []"
  shows "sanitizeDecimal s False =
     (let allowed = filter (\<lambda>c. isDigit c \<or> c = CHR ''.'') (trim s)
      in if allowed = [] then []
         else
           let whole = hd (split (CHR ''.'') allowed);
               decimals = take 2 (concat (tl (split (CHR ''.'') allowed)));
               normalizedWhole = stripLeadingZeros whole;
               safeWhole = (if normalizedWhole \<noteq> [] then normalizedWhole
                            else if decimals \<noteq> [] then ''0'' else whole);
               sanitized = (if decimals \<noteq> [] then safeWhole @ ''.'' @ decimals else safeWhole)
           in sanitized)"
proof -
  have h: "\<And>xs. (case split (CHR ''.'') xs of [] \<Rightarrow> [] | w # _ \<Rightarrow> w) = hd (split (CHR ''.'') xs)"
    by (simp split: list.splits)
  have t: "\<And>xs. (case split (CHR ''.'') xs of [] \<Rightarrow> [] | _ # r \<Rightarrow> r) = tl (split (CHR ''.'') xs)"
    by (simp split: list.splits)
  show ?thesis
    unfolding sanitizeDecimal_def Let_def h t using assms by simp
qed

lemma sanitizeAmountInput_char:
  "sanitizeAmountInput s =
     (let w = stripLeadingZeros (wholeDigits s); d = take 2 (fracDigits s)
      in if d \<noteq> [] then (if w = [] then ''0'' else w) @ ''.'' @ d else w)"
proof (cases "s = []")
  case True
  then show ?thesis
    by (simp add: sanitizeAmountInput_def sanitizeDecimal_def wholeDigits_def fracDigits_def)
next
  case False
  have "filter isAllowed (trim s) = filter isAllowed s"
    by (rule filter_trim) (auto simp: isAllowed_def dest: ws_not_digit ws_not_dot)
  moreover have "(\<lambda>c. isDigit c \<or> c = CHR ''.'') = isAllowed"
    by (simp add: isAllowed_def fun_eq_iff)
  ultimately have al: "filter (\<lambda>c. isDigit c \<or> c = CHR ''.'') (trim s) = filter isAllowed s"
    by simp
  have w: "hd (split (CHR ''.'') (filter isAllowed s)) = wholeDigits s"
    by (simp add: hd_split takeWhile_filter_allowed)
  have r: "concat (tl (split (CHR ''.'') (filter isAllowed s))) = fracDigits s"
    by (simp add: concat_tl_split dropWhile_filter_allowed)
  have u: "sanitizeAmountInput s =
      (if filter isAllowed s = [] then []
       else if take 2 (fracDigits s) \<noteq> []
            then (if stripLeadingZeros (wholeDigits s) \<noteq> [] then stripLeadingZeros (wholeDigits s)
                  else if take 2 (fracDigits s) \<noteq> [] then ''0'' else wholeDigits s) @ ''.'' @ take 2 (fracDigits s)
            else (if stripLeadingZeros (wholeDigits s) \<noteq> [] then stripLeadingZeros (wholeDigits s)
                  else if take 2 (fracDigits s) \<noteq> [] then ''0'' else wholeDigits s))"
    unfolding sanitizeAmountInput_def sanitizeDecimal_unfold [OF False] al Let_def w r ..
  show ?thesis
  proof (cases "filter isAllowed s = []")
    case True
    then have "wholeDigits s = []" "fracDigits s = []"
      using takeWhile_filter_allowed [of s] dropWhile_filter_allowed [of s] by auto
    with True u show ?thesis by simp
  next
    case f: False
    show ?thesis
    proof (cases "take 2 (fracDigits s) = []")
      case True
      with f u show ?thesis by (simp add: Let_def)
    next
      case d: False
      with f u show ?thesis by (simp add: Let_def)
    qed
  qed
qed


lemma digit_not_dot: "isDigit c \<Longrightarrow> c \<noteq> CHR ''.''"
  by (auto simp: isDigit_def)

lemma all_digits_wholeDigits [simp]: "list_all isDigit (wholeDigits s)"
  by (simp add: wholeDigits_def list_all_iff)

lemma all_digits_fracDigits [simp]: "list_all isDigit (fracDigits s)"
  by (simp add: fracDigits_def list_all_iff)

lemma all_digits_take: "list_all isDigit xs \<Longrightarrow> list_all isDigit (take n xs)"
  by (auto simp: list_all_iff dest: in_set_takeD)

lemma all_digits_strip: "list_all isDigit w \<Longrightarrow> list_all isDigit (stripLeadingZeros w)"
  by (induction w rule: stripLeadingZeros.induct) auto

lemma strip_idem [simp]: "stripLeadingZeros (stripLeadingZeros w) = stripLeadingZeros w"
  by (induction w rule: stripLeadingZeros.induct) auto

lemma takeWhile_digits_append:
  "list_all isDigit xs \<Longrightarrow> takeWhile (\<lambda>c. c \<noteq> CHR ''.'') (xs @ ys) = xs @ takeWhile (\<lambda>c. c \<noteq> CHR ''.'') ys"
  by (rule takeWhile_append2) (auto simp: list_all_iff dest: digit_not_dot)

lemma dropWhile_digits_append:
  "list_all isDigit xs \<Longrightarrow> dropWhile (\<lambda>c. c \<noteq> CHR ''.'') (xs @ ys) = dropWhile (\<lambda>c. c \<noteq> CHR ''.'') ys"
  by (rule dropWhile_append2) (auto simp: list_all_iff dest: digit_not_dot)

lemma filter_all_digits: "list_all isDigit xs \<Longrightarrow> filter isDigit xs = xs"
  by (simp add: list_all_iff)

lemma intPart_digits_dot:
  "list_all isDigit w \<Longrightarrow> intPart (w @ CHR ''.'' # d) = w"
  using takeWhile_digits_append [of w "CHR ''.'' # d"] by (simp add: intPart_def)

lemma fracPart_digits_dot:
  "list_all isDigit w \<Longrightarrow> fracPart (w @ CHR ''.'' # d) = d"
  using dropWhile_digits_append [of w "CHR ''.'' # d"] by (simp add: fracPart_def)

lemma intPart_digits: "list_all isDigit w \<Longrightarrow> intPart w = w"
  using takeWhile_digits_append [of w "[]"] by (simp add: intPart_def)

lemma fracPart_digits: "list_all isDigit w \<Longrightarrow> fracPart w = []"
proof -
  assume "list_all isDigit w"
  then have dw: "dropWhile (\<lambda>c. c \<noteq> CHR ''.'') w = []"
    by (auto simp: list_all_iff dest: digit_not_dot)
  show ?thesis unfolding fracPart_def dw by simp
qed

lemma wholeDigits_eq: "wholeDigits r = filter isDigit (intPart r)"
  by (simp add: wholeDigits_def intPart_def)

lemma fracDigits_eq: "fracDigits r = filter isDigit (fracPart r)"
  by (simp add: fracDigits_def fracPart_def)

lemma all_digits_safeWholeOf [simp]: "list_all isDigit (safeWholeOf s)"
  by (simp add: safeWholeOf_def all_digits_strip isDigit_def)

lemma sanitizeAmountInput_cases:
  "sanitizeAmountInput s =
     (if take 2 (fracDigits s) = [] then stripLeadingZeros (wholeDigits s)
      else safeWholeOf s @ CHR ''.'' # take 2 (fracDigits s))"
  by (simp add: sanitizeAmountInput_char Let_def safeWholeOf_def)

text \<open>
  Claim C1. For every input string, the normalized amount holds only digits and at most one
  decimal point (thousands separators and every other character are stripped); its
  fractional part is the first two fractional digits of the input, unchanged, and the
  further fractional digits are dropped: the amount is truncated, not rounded. Its integer
  part is the integer digits of the input without leading zeros.
\<close>

theorem sanitizeAmountInput_truncates:
  "list_all isAllowed (sanitizeAmountInput s)
   \<and> length (filter (\<lambda>c. c = CHR ''.'') (sanitizeAmountInput s)) \<le> 1
   \<and> fracPart (sanitizeAmountInput s) = take 2 (fracDigits s)
   \<and> length (fracPart (sanitizeAmountInput s)) \<le> 2
   \<and> intPart (sanitizeAmountInput s) =
       (if wholeDigits s = [] \<and> fracDigits s \<noteq> [] then ''0'' else stripLeadingZeros (wholeDigits s))"
proof (cases "take 2 (fracDigits s) = []")
  case True
  then have f: "fracDigits s = []" by simp
  have r: "sanitizeAmountInput s = stripLeadingZeros (wholeDigits s)"
    using True by (simp add: sanitizeAmountInput_cases)
  have d: "list_all isDigit (stripLeadingZeros (wholeDigits s))"
    by (simp add: all_digits_strip)
  have "list_all isAllowed (stripLeadingZeros (wholeDigits s))"
    using d by (auto simp: list_all_iff isAllowed_def)
  moreover have "filter (\<lambda>c. c = CHR ''.'') (stripLeadingZeros (wholeDigits s)) = []"
    using d by (auto simp: list_all_iff filter_empty_conv dest: digit_not_dot)
  ultimately show ?thesis
    using d f by (simp add: r intPart_digits fracPart_digits)
next
  case False
  let ?d = "take 2 (fracDigits s)"
  have r: "sanitizeAmountInput s = safeWholeOf s @ CHR ''.'' # ?d"
    using False by (simp add: sanitizeAmountInput_cases)
  have dd: "list_all isDigit ?d" by (simp add: all_digits_take)
  have nz: "fracDigits s \<noteq> []" using False by auto
  have "list_all isAllowed (safeWholeOf s @ CHR ''.'' # ?d)"
    using dd all_digits_safeWholeOf [of s] by (auto simp: list_all_iff isAllowed_def)
  moreover have "filter (\<lambda>c. c = CHR ''.'') (safeWholeOf s) = []"
    using all_digits_safeWholeOf [of s] by (auto simp: list_all_iff filter_empty_conv dest: digit_not_dot)
  moreover have "filter (\<lambda>c. c = CHR ''.'') ?d = []"
    using dd by (auto simp: list_all_iff filter_empty_conv dest: digit_not_dot)
  moreover have "intPart (safeWholeOf s @ CHR ''.'' # ?d) = safeWholeOf s"
    by (simp add: intPart_digits_dot)
  moreover have "fracPart (safeWholeOf s @ CHR ''.'' # ?d) = ?d"
    by (simp add: fracPart_digits_dot)
  moreover have "safeWholeOf s = (if wholeDigits s = [] \<and> fracDigits s \<noteq> [] then ''0'' else stripLeadingZeros (wholeDigits s))"
    using nz by (simp add: safeWholeOf_def)
  ultimately show ?thesis
    unfolding r by simp
qed

lemma strip_safeWholeOf: "stripLeadingZeros (safeWholeOf s) = safeWholeOf s"
  by (simp add: safeWholeOf_def)

lemma safeWholeOf_not_Nil: "safeWholeOf s \<noteq> []"
  by (simp add: safeWholeOf_def)

text \<open>
  Claim C9. Amount sanitization is idempotent: sanitizing an amount that is already
  sanitized does not change it.
\<close>

theorem sanitizeAmountInput_idempotent:
  "sanitizeAmountInput (sanitizeAmountInput s) = sanitizeAmountInput s"
proof (cases "take 2 (fracDigits s) = []")
  case True
  let ?w = "stripLeadingZeros (wholeDigits s)"
  have r: "sanitizeAmountInput s = ?w"
    using True by (simp add: sanitizeAmountInput_cases)
  have d: "list_all isDigit ?w" by (simp add: all_digits_strip)
  have "wholeDigits ?w = ?w" "fracDigits ?w = []"
    using d by (simp_all add: wholeDigits_eq fracDigits_eq intPart_digits fracPart_digits filter_all_digits)
  then have "sanitizeAmountInput ?w = ?w"
    by (simp add: sanitizeAmountInput_cases)
  then show ?thesis by (simp add: r)
next
  case False
  let ?d = "take 2 (fracDigits s)"
  let ?r = "safeWholeOf s @ CHR ''.'' # ?d"
  have r: "sanitizeAmountInput s = ?r"
    using False by (simp add: sanitizeAmountInput_cases)
  have dd: "list_all isDigit ?d" by (simp add: all_digits_take)
  have w: "wholeDigits ?r = safeWholeOf s"
    by (simp add: wholeDigits_eq intPart_digits_dot filter_all_digits)
  have f: "fracDigits ?r = ?d"
    using dd by (simp add: fracDigits_eq fracPart_digits_dot filter_all_digits)
  have "safeWholeOf ?r = safeWholeOf s"
    using w strip_safeWholeOf [of s] safeWholeOf_not_Nil [of s]
    by (simp add: safeWholeOf_def [of ?r])
  then have "sanitizeAmountInput ?r = ?r"
    using False by (simp add: sanitizeAmountInput_cases [of ?r] w f)
  then show ?thesis by (simp add: r)
qed

text \<open>
  The amount \<open>1,234.567\<close> becomes \<open>1234.56\<close>; rounding would give \<open>1234.57\<close>.
\<close>

theorem sanitizeAmountInput_truncates_witness:
  "sanitizeAmountInput ''1,234.567'' = ''1234.56'' \<and> fracDigits ''1,234.567'' = ''567''
    \<and> fracPart ''1234.56'' = ''56''"
  using sanitizeAmountInput_truncates [of "''1,234.567''"]
  by (simp add: sanitizeAmountInput_def sanitizeDecimal_def trim_def isWhiteSpace_def isDigit_def fracDigits_def fracPart_def)

section \<open>Tag normalization\<close>

lemma joinWith_Cons: "ys \<noteq> [] \<Longrightarrow> joinWith sep (x # ys) = x @ sep # joinWith sep ys"
  by (cases ys) simp_all

lemma joinWith_Cons_Cons: "joinWith sep ((c # w) # ws) = c # joinWith sep (w # ws)"
  by (cases ws) simp_all

lemma joinWith_split: "joinWith sep (split sep s) = s"
proof (induction s)
  case Nil
  show ?case by simp
next
  case (Cons c cs)
  show ?case
  proof (cases "c = sep")
    case True
    with Cons show ?thesis by (simp add: joinWith_Cons split_not_Nil)
  next
    case False
    obtain w ws where s: "split sep cs = w # ws"
      using split_not_Nil [of sep cs] by (cases "split sep cs") auto
    with False Cons show ?thesis by (simp add: joinWith_Cons_Cons)
  qed
qed

lemma split_no_sep: "list_all (\<lambda>f. sep \<notin> set f) (split sep s)"
  by (induction s) (auto split: list.splits)

lemma rev_dropWhile_takeWhile: "rev (dropWhile P ys) @ rev (takeWhile P ys) = rev ys"
proof -
  have "rev (takeWhile P ys @ dropWhile P ys) = rev ys" by simp
  then show ?thesis by (simp only: rev_append)
qed

lemma trim_prefix: "dropWhile isWhiteSpace s = trim s @ rev (takeWhile isWhiteSpace (rev (dropWhile isWhiteSpace s)))"
  using rev_dropWhile_takeWhile [of isWhiteSpace "rev (dropWhile isWhiteSpace s)"]
  by (simp add: trim_def)

lemma trim_ends:
  assumes "trim s \<noteq> []"
  shows "\<not> isWhiteSpace (hd (trim s))" "\<not> isWhiteSpace (last (trim s))"
proof -
  let ?u = "dropWhile isWhiteSpace s"
  have u: "?u \<noteq> []"
  proof
    assume e: "?u = []"
    have "trim s = []" unfolding trim_def e by simp
    with assms show False by simp
  qed
  have "hd ?u = hd (trim s)"
    using assms trim_prefix [of s] by (metis hd_append2)
  moreover have "\<not> isWhiteSpace (hd ?u)" using u by (rule hd_dropWhile)
  ultimately show "\<not> isWhiteSpace (hd (trim s))" by simp
  have d: "dropWhile isWhiteSpace (rev ?u) \<noteq> []" using assms by (simp add: trim_def)
  then have "\<not> isWhiteSpace (hd (dropWhile isWhiteSpace (rev ?u)))" by (rule hd_dropWhile)
  moreover have "last (trim s) = hd (dropWhile isWhiteSpace (rev ?u))"
    using d by (simp add: trim_def last_rev)
  ultimately show "\<not> isWhiteSpace (last (trim s))" by simp
qed

lemma trimmed_tags: "list_all isTrimmedTag (filter (\<lambda>t. t \<noteq> []) (map trim fs))"
  by (induction fs) (auto simp: isTrimmedTag_def trim_ends)

text \<open>
  Claim C6, as the code has it. With an empty tags input the payload has no tags. Otherwise
  the submitted tags are the comma-separated entries of the input (the entries hold no comma
  and, joined by commas, give the input back), each trimmed, without the empty ones, in the
  order of the input; every submitted tag is trimmed and not empty. A tag that occurs more than
  once is kept at each occurrence.
\<close>

theorem submittedTags_trimmed_nonempty_in_order:
  "submittedTags [] = None
   \<and> (ts \<noteq> [] \<longrightarrow>
        submittedTags ts = Some (filter (\<lambda>t. t \<noteq> []) (map trim (split (CHR '','') ts)))
        \<and> list_all isTrimmedTag (the (submittedTags ts)))
   \<and> joinWith (CHR '','') (split (CHR '','') ts) = ts
   \<and> list_all (\<lambda>f. CHR '','' \<notin> set f) (split (CHR '','') ts)"
  by (simp add: submittedTags_def joinWith_split split_no_sep trimmed_tags)

theorem submittedTags_trimmed_nonempty_in_order_witness:
  "submittedTags '' a,,b , a'' = Some [''a'', ''b'', ''a'']
   \<and> list_all isTrimmedTag [''a'', ''b'', ''a'']
   \<and> split (CHR '','') '' a,,b , a'' = ['' a'', [], ''b '', '' a'']"
  using submittedTags_trimmed_nonempty_in_order [of "'' a,,b , a''"]
  by (simp add: submittedTags_def trim_def isWhiteSpace_def)

text \<open>
  The tags \<open>a,b,a\<close> are submitted as they are: the second \<open>a\<close> is not dropped.
\<close>

theorem tags_deduplication_counterexample:
  "submittedTags ''a,b,a'' = Some [''a'', ''b'', ''a''] \<and> \<not> distinct [''a'', ''b'', ''a'']"
  by (simp add: submittedTags_def trim_def isWhiteSpace_def)

section \<open>The future-date check\<close>

lemma natToString_small: "n < 10 \<Longrightarrow> natToString n = [''0123456789'' ! n]"
  by (subst natToString.simps) simp

lemma natToString_step: "10 \<le> n \<Longrightarrow> natToString n = natToString (n div 10) @ [''0123456789'' ! (n mod 10)]"
  by (subst natToString.simps) simp

lemma of_char_digit: "n < 10 \<Longrightarrow> of_char (''0123456789'' ! n) = 48 + n"
proof -
  assume "n < 10"
  then have "n \<in> {0, 1, 2, 3, 4, 5, 6, 7, 8, 9}"
    by (simp only: insert_iff empty_iff) arith
  then show ?thesis
    by (elim insertE emptyE) simp_all
qed

lemma digit_less_iff: "a < 10 \<Longrightarrow> b < 10 \<Longrightarrow> (''0123456789'' ! a < ''0123456789'' ! b) = (a < b)"
  by (simp add: less_char_def of_char_digit)

lemma digit_eq_iff: "a < 10 \<Longrightarrow> b < 10 \<Longrightarrow> (''0123456789'' ! a = ''0123456789'' ! b) = (a = b)"
proof -
  assume a: "a < 10" and b: "b < 10"
  have "''0123456789'' ! a = ''0123456789'' ! b \<Longrightarrow> a = b"
  proof -
    assume "''0123456789'' ! a = ''0123456789'' ! b"
    then have "(of_char (''0123456789'' ! a) :: nat) = of_char (''0123456789'' ! b)" by simp
    with a b show "a = b" by (simp add: of_char_digit)
  qed
  then show ?thesis by auto
qed

lemma append_less_same_length:
  "length xs = length ys \<Longrightarrow> (xs @ us < ys @ vs) = (xs < ys \<or> (xs = ys \<and> us < (vs :: string)))"
  by (induction xs ys rule: list_induct2) auto

lemma length_natToString_pos: "0 < length (natToString n)"
  by (subst natToString.simps) simp

lemma length_natToString_one: "(length (natToString n) = 1) = (n < 10)"
proof (cases "n < 10")
  case True
  then show ?thesis by (simp add: natToString_small)
next
  case False
  then have "natToString n = natToString (n div 10) @ [''0123456789'' ! (n mod 10)]"
    by (simp add: natToString_step)
  with False length_natToString_pos [of "n div 10"] show ?thesis by simp
qed

lemma nat_less_div10:
  "((n::nat) < b) = (n div 10 < b div 10 \<or> (n div 10 = b div 10 \<and> n mod 10 < b mod 10))"
proof -
  obtain q r q' r' where d: "q = n div 10" "r = n mod 10" "q' = b div 10" "r' = b mod 10" by simp
  have "n = 10 * q + r" "b = 10 * q' + r'" "r < 10" "r' < 10" using d by simp_all
  then have "(n < b) = (q < q' \<or> (q = q' \<and> r < r'))" by arith
  then show ?thesis using d by simp
qed

lemma nat_eq_div10: "((n::nat) = b) = (n div 10 = b div 10 \<and> n mod 10 = b mod 10)"
proof (rule iffI)
  assume "n = b"
  then show "n div 10 = b div 10 \<and> n mod 10 = b mod 10" by simp
next
  assume a: "n div 10 = b div 10 \<and> n mod 10 = b mod 10"
  have "n = (n div 10) * 10 + n mod 10" by simp
  also have "\<dots> = (b div 10) * 10 + b mod 10" using a by simp
  also have "\<dots> = b" by simp
  finally show "n = b" .
qed

lemma natToString_order:
  "length (natToString a) = length (natToString b) \<Longrightarrow>
     (natToString a < natToString b) = (a < b) \<and> (natToString a = natToString b) = (a = b)"
proof (induction a arbitrary: b rule: natToString.induct)
  case (1 n)
  show ?case
  proof (cases "n < 10")
    case True
    with "1.prems" have "b < 10"
      using length_natToString_one [of b] by (simp add: natToString_small)
    with True show ?thesis
      by (simp add: natToString_small digit_less_iff digit_eq_iff)
  next
    case False
    then have n: "natToString n = natToString (n div 10) @ [''0123456789'' ! (n mod 10)]"
      by (simp add: natToString_step)
    have "\<not> b < 10"
    proof
      assume "b < 10"
      then have "length (natToString b) = 1" by (simp add: natToString_small)
      with "1.prems" have "n < 10" using length_natToString_one [of n] by simp
      with False show False by simp
    qed
    then have b: "natToString b = natToString (b div 10) @ [''0123456789'' ! (b mod 10)]"
      by (simp add: natToString_step)
    from "1.prems" n b have len: "length (natToString (n div 10)) = length (natToString (b div 10))"
      by simp
    from "1.IH" [OF False len]
    have ih: "(natToString (n div 10) < natToString (b div 10)) = (n div 10 < b div 10)"
      "(natToString (n div 10) = natToString (b div 10)) = (n div 10 = b div 10)"
      by simp_all
    have lt: "(n < b) = (n div 10 < b div 10 \<or> (n div 10 = b div 10 \<and> n mod 10 < b mod 10))"
      by (rule nat_less_div10)
    have eq: "(n = b) = (n div 10 = b div 10 \<and> n mod 10 = b mod 10)"
      by (rule nat_eq_div10)
    have m: "n mod 10 < 10" "b mod 10 < 10" by simp_all
    have A: "(natToString n < natToString b) =
        (natToString (n div 10) < natToString (b div 10) \<or>
          (natToString (n div 10) = natToString (b div 10) \<and>
           [''0123456789'' ! (n mod 10)] < [''0123456789'' ! (b mod 10)]))"
      unfolding n b by (rule append_less_same_length [OF len])
    have B: "([''0123456789'' ! (n mod 10)] < [''0123456789'' ! (b mod 10)]) = (n mod 10 < b mod 10)"
      using digit_less_iff [OF m] by simp
    have C: "(natToString n = natToString b) =
        (natToString (n div 10) = natToString (b div 10) \<and> n mod 10 = b mod 10)"
      unfolding n b using len digit_eq_iff [OF m] by simp
    have "(natToString n < natToString b) = (n < b)"
      unfolding A B ih lt ..
    moreover have "(natToString n = natToString b) = (n = b)"
      unfolding C ih eq ..
    ultimately show ?thesis ..
  qed
qed

lemma length_natToString_four: "1000 \<le> n \<Longrightarrow> n \<le> 9999 \<Longrightarrow> length (natToString n) = 4"
proof -
  assume a: "1000 \<le> n" "n \<le> 9999"
  have "natToString n = natToString (n div 10) @ [''0123456789'' ! (n mod 10)]"
    using a by (simp add: natToString_step)
  moreover have "natToString (n div 10) = natToString (n div 10 div 10) @ [''0123456789'' ! (n div 10 mod 10)]"
    using a by (simp add: natToString_step)
  moreover have "natToString (n div 10 div 10) = natToString (n div 10 div 10 div 10) @ [''0123456789'' ! (n div 10 div 10 mod 10)]"
    using a by (simp add: natToString_step)
  moreover have "length (natToString (n div 10 div 10 div 10)) = 1"
    using a by (simp add: length_natToString_one)
  ultimately show ?thesis by simp
qed

lemma pad_two_digits: "v < 100 \<Longrightarrow> pad v = [''0123456789'' ! (v div 10), ''0123456789'' ! (v mod 10)]"
proof (cases "v < 10")
  case True
  then show ?thesis by (simp add: pad_def natToString_small)
next
  case False
  assume "v < 100"
  with False have "natToString v = natToString (v div 10) @ [''0123456789'' ! (v mod 10)]" "v div 10 < 10"
    by (simp_all add: natToString_step)
  then show ?thesis by (simp add: pad_def natToString_small)
qed

lemma pad_order:
  assumes "a < 100" "b < 100"
  shows "(pad a < pad b) = (a < b)" "(pad a = pad b) = (a = b)"
proof -
  have d: "a div 10 < 10" "b div 10 < 10" "a mod 10 < 10" "b mod 10 < 10" using assms by simp_all
  have lt: "(a < b) = (a div 10 < b div 10 \<or> (a div 10 = b div 10 \<and> a mod 10 < b mod 10))"
    by (rule nat_less_div10)
  have eq: "(a = b) = (a div 10 = b div 10 \<and> a mod 10 = b mod 10)"
    by (rule nat_eq_div10)
  show "(pad a < pad b) = (a < b)"
    using d by (simp add: pad_two_digits assms digit_less_iff digit_eq_iff lt)
  show "(pad a = pad b) = (a = b)"
    using d by (simp add: pad_two_digits assms digit_eq_iff eq)
qed

lemma length_pad: "v < 100 \<Longrightarrow> length (pad v) = 2"
  by (simp add: pad_two_digits)

lemma year_order:
  assumes "1000 \<le> y" "y \<le> 9999" "1000 \<le> y'" "y' \<le> 9999"
  shows "(numToString y < numToString y') = (y < y')" "(numToString y = numToString y') = (y = y')"
    "length (numToString y) = length (numToString y')"
proof -
  have r: "1000 \<le> nat y" "nat y \<le> 9999" "1000 \<le> nat y'" "nat y' \<le> 9999"
    using assms by arith+
  have l: "length (natToString (nat y)) = 4" "length (natToString (nat y')) = 4"
    using length_natToString_four [OF r(1,2)] length_natToString_four [OF r(3,4)] by blast+
  then have len: "length (natToString (nat y)) = length (natToString (nat y'))" by simp
  from natToString_order [OF len] assms
  show "(numToString y < numToString y') = (y < y')" "(numToString y = numToString y') = (y = y')"
    by (auto simp: numToString_def)
  from len assms show "length (numToString y) = length (numToString y')"
    by (simp add: numToString_def)
qed

lemma isoDate_order:
  assumes "1000 \<le> y" "y \<le> 9999" "1000 \<le> y'" "y' \<le> 9999" "m < 100" "m' < 100" "d < 100" "d' < 100"
  shows "(isoDate y' m' d' < isoDate y m d) = dateAfter (y, m, d) (y', m', d')"
proof -
  have ylen: "length (numToString y') = length (numToString y)"
    using year_order(3) [of y' y] assms by simp
  have mlen: "length (pad m') = length (pad m)" using assms by (simp add: length_pad)
  show ?thesis
    unfolding isoDate_def
    using year_order(1,2) [of y' y] pad_order [of m' m] pad_order [of d' d] assms
    by (auto simp add: append_less_same_length [OF ylen] append_less_same_length [OF mlen])
qed


lemma isoDate_not_Nil: "isoDate y m d \<noteq> []"
  by (simp add: isoDate_def)

text \<open>
  Claim C3, as the code has it. The future-date check compares calendar days: for a date
  \<open>YYYY-MM-DD\<close> with a year of four digits and a clock in such a year, it reports a future
  date exactly when the date is a later day than the local day of the clock. The time of the
  form does not enter the check.
\<close>

theorem isFutureDate_compares_calendar_days:
  assumes "wellFormedDate y m d"
    and "wellFormedDate (getFullYear (localNow env)) (getMonth (localNow env) + 1) (getDate (localNow env))"
  shows "isFutureDate env (Some (isoDate y m d)) = dateAfter (y, m, d) (todayOf env)
    \<and> (errIncurredDate (errors (validateExpense env
            (st\<lparr>incurred_date := isoDate y m d, incurred_time := t\<rparr>)))
          = Some ''Incurred date cannot be in the future.'')
        = dateAfter (y, m, d) (todayOf env)
    \<and> (errReceivedDate (incomeErrors (validateIncome env
            (ist\<lparr>received_date := isoDate y m d, received_time := t\<rparr>)))
          = Some ''Received date cannot be in the future.'')
        = dateAfter (y, m, d) (todayOf env)"
proof -
  have "(isoDate (getFullYear (localNow env)) (getMonth (localNow env) + 1) (getDate (localNow env))
          < isoDate y m d)
        = dateAfter (y, m, d) (getFullYear (localNow env), getMonth (localNow env) + 1, getDate (localNow env))"
    using assms unfolding wellFormedDate_def by (intro isoDate_order) auto
  then have f: "isFutureDate env (Some (isoDate y m d)) = dateAfter (y, m, d) (todayOf env)"
    by (simp add: isFutureDate_def getTodayIsoDate_def Let_def isoDate_not_Nil todayOf_def)
  have e: "(errIncurredDate (errors (validateExpense env
            (st\<lparr>incurred_date := isoDate y m d, incurred_time := t\<rparr>)))
          = Some ''Incurred date cannot be in the future.'')
        = isFutureDate env (Some (isoDate y m d))"
    by (simp add: validateExpense_def Let_def isoDate_not_Nil)
  have i: "(errReceivedDate (incomeErrors (validateIncome env
            (ist\<lparr>received_date := isoDate y m d, received_time := t\<rparr>)))
          = Some ''Received date cannot be in the future.'')
        = isFutureDate env (Some (isoDate y m d))"
    by (simp add: validateIncome_def Let_def isoDate_not_Nil)
  show ?thesis unfolding e i f by simp
qed

lemma isoDate_example: "isoDate 2024 5 11 = ''2024-05-11'' \<and> isoDate 2024 5 10 = ''2024-05-10''"
  by (simp add: isoDate_def numToString_def pad_def)

theorem isFutureDate_compares_calendar_days_witness:
  "wellFormedDate 2024 5 11 \<and> wellFormedDate 2024 5 10
   \<and> todayOf exampleEnv = (2024, 5, 10)
   \<and> isFutureDate exampleEnv (Some ''2024-05-11'')
   \<and> \<not> isFutureDate exampleEnv (Some ''2024-05-10'')"
proof -
  have w: "wellFormedDate 2024 5 11" "wellFormedDate 2024 5 10"
    by (simp_all add: wellFormedDate_def)
  have t: "wellFormedDate (getFullYear (localNow exampleEnv)) (getMonth (localNow exampleEnv) + 1)
      (getDate (localNow exampleEnv))"
    by (simp add: exampleEnv_def wellFormedDate_def)
  have td: "todayOf exampleEnv = (2024, 5, 10)"
    by (simp add: todayOf_def exampleEnv_def)
  from isFutureDate_compares_calendar_days [OF w(1) t] isFutureDate_compares_calendar_days [OF w(2) t]
  show ?thesis
    using w td isoDate_example by simp
qed

text \<open>
  At 10:00 on 10 May 2024 the instant 23:59 of the same day is in the future, and the check
  accepts it.
\<close>

theorem future_date_check_counterexample:
  "instantAfter (2024, 5, 10, 23, 59) (nowInstant exampleEnv)
   \<and> \<not> isFutureDate exampleEnv (Some ''2024-05-10'')
   \<and> errIncurredDate (errors (validateExpense exampleEnv (exampleExpense ''12.50'' ''2024-05-10'' ''23:59''))) = None"
  by (simp add: nowInstant_def exampleEnv_def isFutureDate_def getTodayIsoDate_def isoDate_def
      numToString_def pad_def validateExpense_def exampleExpense_def Let_def)

section \<open>Validation of the forms\<close>

lemma digitVal_nonneg: "isHexDigit c \<Longrightarrow> 0 \<le> digitVal c"
proof -
  assume "isHexDigit c"
  then have "c = CHR ''0'' \<or> c = CHR ''1'' \<or> c = CHR ''2'' \<or> c = CHR ''3'' \<or> c = CHR ''4'' \<or> c = CHR ''5''
     \<or> c = CHR ''6'' \<or> c = CHR ''7'' \<or> c = CHR ''8'' \<or> c = CHR ''9'' \<or> c = CHR ''a'' \<or> c = CHR ''b''
     \<or> c = CHR ''c'' \<or> c = CHR ''d'' \<or> c = CHR ''e'' \<or> c = CHR ''f'' \<or> c = CHR ''A'' \<or> c = CHR ''B''
     \<or> c = CHR ''C'' \<or> c = CHR ''D'' \<or> c = CHR ''E'' \<or> c = CHR ''F''"
    by (simp add: isHexDigit_def)
  then show ?thesis
    by (elim disjE) (simp_all add: digitVal_def isDigit_def)
qed

lemma hex_of_digit: "isDigit c \<Longrightarrow> isHexDigit c"
proof -
  have "set ''0123456789'' \<subseteq> set ''0123456789abcdefABCDEF''" by simp
  then show "isDigit c \<Longrightarrow> isHexDigit c"
    unfolding isDigit_def isHexDigit_def by (rule subsetD)
qed

lemma hex_of_octal: "isOctalDigit c \<Longrightarrow> isHexDigit c"
proof -
  have "set ''01234567'' \<subseteq> set ''0123456789abcdefABCDEF''" by simp
  then show "isOctalDigit c \<Longrightarrow> isHexDigit c"
    unfolding isOctalDigit_def isHexDigit_def by (rule subsetD)
qed

lemma hex_of_binary: "isBinaryDigit c \<Longrightarrow> isHexDigit c"
proof -
  have "set ''01'' \<subseteq> set ''0123456789abcdefABCDEF''" by simp
  then show "isBinaryDigit c \<Longrightarrow> isHexDigit c"
    unfolding isBinaryDigit_def isHexDigit_def by (rule subsetD)
qed

lemma radixValue_nonneg_aux:
  "0 \<le> b \<Longrightarrow> 0 \<le> a \<Longrightarrow> list_all isHexDigit ds \<Longrightarrow> 0 \<le> foldl (\<lambda>a c. b * a + digitVal c) a ds"
proof (induction ds arbitrary: a)
  case Nil
  then show ?case by simp
next
  case (Cons c ds)
  from Cons.prems have "0 \<le> b * a + digitVal c"
    by (simp add: digitVal_nonneg)
  with Cons show ?case by simp
qed

lemma radixValue_nonneg: "0 \<le> b \<Longrightarrow> list_all isHexDigit ds \<Longrightarrow> 0 \<le> radixValue b ds"
  unfolding radixValue_def by (rule radixValue_nonneg_aux) simp_all

lemma all_hex_of_digits: "list_all isDigit ds \<Longrightarrow> list_all isHexDigit ds"
  by (erule list.pred_mono_strong) (rule hex_of_digit)

lemma all_hex_of_octal: "list_all isOctalDigit ds \<Longrightarrow> list_all isHexDigit ds"
  by (erule list.pred_mono_strong) (rule hex_of_octal)

lemma all_hex_of_binary: "list_all isBinaryDigit ds \<Longrightarrow> list_all isHexDigit ds"
  by (erule list.pred_mono_strong) (rule hex_of_binary)

lemma parseNonDecimal_nonneg: "parseNonDecimal t = Some n \<Longrightarrow> 0 \<le> n"
  unfolding parseNonDecimal_def
  by (auto split: list.splits if_splits
      simp: radixValue_nonneg all_hex_of_octal all_hex_of_binary)

lemma all_digits_takeWhile: "list_all isDigit (takeWhile isDigit xs)"
  by (induction xs) auto

lemma parseUnsignedDecimal_nonneg: "parseUnsignedDecimal neg t = Finite neg' m e \<Longrightarrow> 0 \<le> m"
proof -
  assume a: "parseUnsignedDecimal neg t = Finite neg' m e"
  have "\<And>xs ys. 0 \<le> radixValue 10 (takeWhile isDigit xs @ takeWhile isDigit ys)"
    by (rule radixValue_nonneg) (simp_all add: all_hex_of_digits all_digits_takeWhile)
  moreover have "\<And>xs. 0 \<le> radixValue 10 (takeWhile isDigit xs)"
    by (rule radixValue_nonneg) (simp_all add: all_hex_of_digits all_digits_takeWhile)
  ultimately show ?thesis
    using a unfolding parseUnsignedDecimal_def Let_def
    by (auto split: if_splits option.splits)
qed

lemma Number_nonneg: "Number s = Finite neg m e \<Longrightarrow> 0 \<le> m"
  unfolding Number_def Let_def
  by (auto split: if_splits option.splits dest: parseNonDecimal_nonneg parseUnsignedDecimal_nonneg)

lemma roundsToZero_zero: "roundsToZero 0 e"
  by (simp add: roundsToZero_def)

lemma accepted_positive:
  "\<not> isNaN (Number s) \<Longrightarrow> \<not> leZero (Number s) \<Longrightarrow> strictlyPositive (Number s)"
proof (cases "Number s")
  case NaN
  assume "\<not> isNaN (Number s)"
  with NaN show ?thesis by (simp add: isNaN_def)
next
  case (Infinity neg)
  assume "\<not> leZero (Number s)"
  with Infinity show ?thesis by simp
next
  case (Finite neg m e)
  assume "\<not> leZero (Number s)"
  with Finite have n: "\<not> neg" "\<not> roundsToZero m e" by auto
  have "0 \<le> m" using Finite by (rule Number_nonneg)
  moreover have "m \<noteq> 0" using n(2) roundsToZero_zero by auto
  ultimately show ?thesis using Finite n(1) by simp
qed

lemma nonpositive_rejected:
  "\<not> strictlyPositive (Number s) \<Longrightarrow> isNaN (Number s) \<or> leZero (Number s)"
  using accepted_positive by blast

lemma errAmount_iff:
  "(errAmount (errors (validateExpense env st)) \<noteq> None) =
     (trim (amount st) = [] \<or> isNaN (Number (amount st)) \<or> leZero (Number (amount st)))"
  by (simp add: validateExpense_def Let_def)

lemma errIncomeAmount_iff:
  "(errIncomeAmount (incomeErrors (validateIncome env st)) \<noteq> None) =
     (trim (incomeAmount st) = [] \<or> isNaN (Number (incomeAmount st)) \<or> leZero (Number (incomeAmount st)))"
  by (simp add: validateIncome_def Let_def)

lemma errorKeys_Nil_iff:
  "(errorKeys e = []) = (errAmount e = None \<and> errCategory e = None \<and> errPaymentMethod e = None \<and> errIncurredDate e = None)"
  by (simp add: errorKeys_def)

lemma incomeErrorKeys_Nil_iff:
  "(incomeErrorKeys e = []) = (errIncomeAmount e = None \<and> errSource e = None \<and> errReceivedMethod e = None \<and> errReceivedDate e = None)"
  by (simp add: incomeErrorKeys_def)

text \<open>
  Claim C2. A candidate whose amount is empty or blank, or does not denote a number greater
  than zero (it does not parse, or its value is zero or negative), gets an amount error and
  is not submitted: \<open>handleSubmit\<close> returns before \<open>onSubmit\<close>. An amount without an amount
  error denotes a number greater than zero. Both forms behave so.
\<close>

theorem validation_rejects_nonpositive_amount:
  "(trim (amount st) = [] \<or> \<not> strictlyPositive (Number (amount st))
      \<longrightarrow> errAmount (errors (validateExpense env st)) \<noteq> None
          \<and> handleSubmit up env st = NotSubmitted ''Please correct the highlighted fields.'')
   \<and> (errAmount (errors (validateExpense env st)) = None \<longrightarrow> strictlyPositive (Number (amount st)))
   \<and> (trim (incomeAmount ist) = [] \<or> \<not> strictlyPositive (Number (incomeAmount ist))
      \<longrightarrow> errIncomeAmount (incomeErrors (validateIncome env ist)) \<noteq> None
          \<and> handleIncomeSubmit up env ist = NotSubmitted ''Please correct the highlighted fields.'')
   \<and> (errIncomeAmount (incomeErrors (validateIncome env ist)) = None
      \<longrightarrow> strictlyPositive (Number (incomeAmount ist)))"
proof -
  have e1: "trim (amount st) = [] \<or> \<not> strictlyPositive (Number (amount st))
      \<Longrightarrow> errAmount (errors (validateExpense env st)) \<noteq> None"
    using nonpositive_rejected [of "amount st"] errAmount_iff [of env st] by blast
  have e2: "errAmount (errors (validateExpense env st)) \<noteq> None
      \<Longrightarrow> handleSubmit up env st = NotSubmitted ''Please correct the highlighted fields.''"
    by (simp add: handleSubmit_def errorKeys_Nil_iff)
  have e3: "errAmount (errors (validateExpense env st)) = None \<Longrightarrow> strictlyPositive (Number (amount st))"
    using errAmount_iff [of env st] accepted_positive [of "amount st"] by blast
  have i1: "trim (incomeAmount ist) = [] \<or> \<not> strictlyPositive (Number (incomeAmount ist))
      \<Longrightarrow> errIncomeAmount (incomeErrors (validateIncome env ist)) \<noteq> None"
    using nonpositive_rejected [of "incomeAmount ist"] errIncomeAmount_iff [of env ist] by blast
  have i2: "errIncomeAmount (incomeErrors (validateIncome env ist)) \<noteq> None
      \<Longrightarrow> handleIncomeSubmit up env ist = NotSubmitted ''Please correct the highlighted fields.''"
    by (simp add: handleIncomeSubmit_def incomeErrorKeys_Nil_iff)
  have i3: "errIncomeAmount (incomeErrors (validateIncome env ist)) = None
      \<Longrightarrow> strictlyPositive (Number (incomeAmount ist))"
    using errIncomeAmount_iff [of env ist] accepted_positive [of "incomeAmount ist"] by blast
  from e1 e2 e3 i1 i2 i3 show ?thesis by blast
qed

lemma Number_zero: "Number ''0'' = Finite False 0 0"
  by (simp add: Number_def trim_def isWhiteSpace_def parseNonDecimal_def parseUnsignedDecimal_def
      isDigit_def parseExponentPart_def radixValue_def digitVal_def isHexDigit_def isOctalDigit_def
      isBinaryDigit_def)

lemma Number_minus_five: "Number ''-5.00'' = Finite True 500 (- 2)"
  by (simp add: Number_def trim_def isWhiteSpace_def parseNonDecimal_def parseUnsignedDecimal_def
      isDigit_def parseExponentPart_def radixValue_def digitVal_def isHexDigit_def isOctalDigit_def
      isBinaryDigit_def)

lemma Number_twelve_fifty: "Number ''12.50'' = Finite False 1250 (- 2)"
  by (simp add: Number_def trim_def isWhiteSpace_def parseNonDecimal_def parseUnsignedDecimal_def
      isDigit_def parseExponentPart_def radixValue_def digitVal_def isHexDigit_def isOctalDigit_def
      isBinaryDigit_def)

text \<open>
  The amounts \<open>0\<close> and \<open>-5.00\<close> are rejected and not submitted; \<open>12.50\<close> is accepted.
\<close>

theorem validation_rejects_nonpositive_amount_witness:
  "errAmount (errors (validateExpense exampleEnv (exampleExpense ''0'' ''2024-05-10'' []))) \<noteq> None
   \<and> handleSubmit asciiUpperCase exampleEnv (exampleExpense ''0'' ''2024-05-10'' [])
       = NotSubmitted ''Please correct the highlighted fields.''
   \<and> errIncomeAmount (incomeErrors (validateIncome exampleEnv (exampleIncome ''-5.00'' ''2024-05-10'' []))) \<noteq> None
   \<and> handleIncomeSubmit asciiUpperCase exampleEnv (exampleIncome ''-5.00'' ''2024-05-10'' [])
       = NotSubmitted ''Please correct the highlighted fields.''
   \<and> errAmount (errors (validateExpense exampleEnv (exampleExpense ''12.50'' ''2024-05-10'' []))) = None
   \<and> strictlyPositive (Number ''12.50'')"
proof -
  have z: "\<not> strictlyPositive (Number (amount (exampleExpense ''0'' ''2024-05-10'' [])))"
    by (simp add: exampleExpense_def Number_zero)
  have m: "\<not> strictlyPositive (Number (incomeAmount (exampleIncome ''-5.00'' ''2024-05-10'' [])))"
    by (simp add: exampleIncome_def Number_minus_five)
  have a: "errAmount (errors (validateExpense exampleEnv (exampleExpense ''12.50'' ''2024-05-10'' []))) = None"
    by (simp add: validateExpense_def exampleExpense_def Number_twelve_fifty isNaN_def roundsToZero_def
        trim_def isWhiteSpace_def Let_def)
  have p: "amount (exampleExpense ''12.50'' ''2024-05-10'' []) = ''12.50''"
    by (simp add: exampleExpense_def)
  from validation_rejects_nonpositive_amount
         [where st = "exampleExpense ''0'' ''2024-05-10'' []" and env = exampleEnv
            and ist = "exampleIncome ''-5.00'' ''2024-05-10'' []" and up = asciiUpperCase]
       validation_rejects_nonpositive_amount
         [where st = "exampleExpense ''12.50'' ''2024-05-10'' []" and env = exampleEnv
            and ist = "exampleIncome ''-5.00'' ''2024-05-10'' []" and up = asciiUpperCase]
       z m a p
  show ?thesis by simp
qed

text \<open>
  Claim C7. Validation collects all violations: the keys of the errors are one key for each
  field whose rule is violated, whatever the other fields are. A candidate with an amount of
  zero, no category and no date gets the three errors.
\<close>

theorem validation_collects_all_violations:
  "errorKeys (errors (validateExpense env st)) =
     (if trim (amount st) = [] \<or> isNaN (Number (amount st)) \<or> leZero (Number (amount st))
      then [''amount''] else []) @
     (if trim (category st) = [] then [''category''] else []) @
     (if trim (payment_method st) = [] then [''payment_method''] else []) @
     (if incurred_date st = [] \<or> isFutureDate env (Some (incurred_date st))
      then [''incurred_date''] else [])
   \<and> incomeErrorKeys (incomeErrors (validateIncome env ist)) =
     (if trim (incomeAmount ist) = [] \<or> isNaN (Number (incomeAmount ist)) \<or> leZero (Number (incomeAmount ist))
      then [''amount''] else []) @
     (if trim (source ist) = [] then [''source''] else []) @
     (if trim (received_method ist) = [] then [''received_method''] else []) @
     (if received_date ist = [] \<or> isFutureDate env (Some (received_date ist))
      then [''received_date''] else [])"
  by (simp add: errorKeys_def incomeErrorKeys_def validateExpense_def validateIncome_def Let_def)

theorem validation_collects_all_violations_witness:
  "errorKeys (errors (validateExpense exampleEnv ((exampleExpense ''0'' [] [])\<lparr>category := []\<rparr>)))
     = [''amount'', ''category'', ''incurred_date'']
   \<and> incomeErrorKeys (incomeErrors (validateIncome exampleEnv ((exampleIncome ''-5.00'' [] [])\<lparr>source := []\<rparr>)))
     = [''amount'', ''source'', ''received_date'']"
  using validation_collects_all_violations
    [of exampleEnv "(exampleExpense ''0'' [] [])\<lparr>category := []\<rparr>"
       "(exampleIncome ''-5.00'' [] [])\<lparr>source := []\<rparr>"]
  by (simp add: exampleExpense_def exampleIncome_def Number_zero Number_minus_five isNaN_def
      roundsToZero_def trim_def isWhiteSpace_def Let_def)

section \<open>Composition of date and time\<close>

lemma trim_midnight: "trim ''00:00'' = ''00:00''"
  by (simp add: trim_def isWhiteSpace_def)

lemma trim_Nil [simp]: "trim [] = []"
  by (simp add: trim_def)

text \<open>
  Claim C10. \<open>combineDateAndTime\<close> and \<open>toIsoString\<close> never throw, and what they return is
  the ISO text of a valid time value: of the composed instant when \<open>date T time\<close> parses,
  with \<open>00:00\<close> for a missing or blank time, and of the current instant when the date is
  empty or the composition does not parse; \<open>toIsoString\<close> gives the current instant for a
  missing, empty or unparseable input.
\<close>

theorem combineDateAndTime_total:
  "combineDateAndTime env date time =
     Inr (isoFormat env (if date = [] then dateNow env
                         else timeValueOf env (date @ ''T'' @ safeTimeOf time)))
   \<and> toIsoString env v =
     Inr (isoFormat env (case v of None \<Rightarrow> dateNow env
                                  | Some s \<Rightarrow> if s = [] then dateNow env else timeValueOf env s))"
proof -
  have s: "(case time of None \<Rightarrow> ''00:00'' | Some t \<Rightarrow> if t \<noteq> [] \<and> trim t \<noteq> [] then t else ''00:00'')
      = safeTimeOf time"
    by (auto simp: safeTimeOf_def split: option.splits)
  have c: "combineDateAndTime env date time =
     Inr (isoFormat env (if date = [] then dateNow env
                         else timeValueOf env (date @ ''T'' @ safeTimeOf time)))"
    unfolding combineDateAndTime_def s Let_def
    by (simp add: toISOString_def newDate_def newDateOf_def timeValueOf_def split: option.splits)
  have t: "toIsoString env v =
     Inr (isoFormat env (case v of None \<Rightarrow> dateNow env
                                  | Some s \<Rightarrow> if s = [] then dateNow env else timeValueOf env s))"
    by (simp add: toIsoString_def toDate_def toISOString_def newDate_def newDateOf_def timeValueOf_def
        Let_def split: option.splits)
  from c t show ?thesis ..
qed

theorem combineDateAndTime_total_witness:
  "combineDateAndTime exampleEnv ''2024-05-10'' None = Inr ''2024-05-10T00:00:00.000Z''
   \<and> combineDateAndTime exampleEnv ''2024-05-10'' (Some ''  '') = Inr ''2024-05-10T00:00:00.000Z''
   \<and> combineDateAndTime exampleEnv ''not a date'' (Some ''12:00'') = Inr ''2024-05-10T10:00:00.000Z''
   \<and> combineDateAndTime exampleEnv [] (Some ''12:00'') = Inr ''2024-05-10T10:00:00.000Z''
   \<and> toIsoString exampleEnv (Some ''garbage'') = Inr ''2024-05-10T10:00:00.000Z''"
  using combineDateAndTime_total [of exampleEnv "''2024-05-10''" None]
    combineDateAndTime_total [of exampleEnv "''2024-05-10''" "Some ''  ''"]
    combineDateAndTime_total [of exampleEnv "''not a date''" "Some ''12:00''"]
    combineDateAndTime_total [of exampleEnv "[]" "Some ''12:00''" "Some ''garbage''"]
  by (simp add: exampleEnv_def timeValueOf_def safeTimeOf_def trim_def isWhiteSpace_def)

section \<open>The order of the categories\<close>

lemma insertBy_insort_key:
  assumes "\<And>a b. (cmp a b \<le> 0) = (key a \<le> (key b :: 'k :: linorder))"
  shows "insertBy (\<lambda>a b. cmp (name a) (name b)) x ys = insort_key (\<lambda>c. key (name c)) x ys"
  by (induction ys) (simp_all add: assms)

lemma sortCategories_sort_key:
  assumes "\<And>a b. (cmp a b \<le> 0) = (key a \<le> (key b :: 'k :: linorder))"
  shows "sortCategories cmp its = sort_key (\<lambda>c. key (name c)) its"
  unfolding sortCategories_def arraySort_def sort_key_def
  by (induction its) (simp_all add: insertBy_insort_key [of cmp key, OF assms])

lemma filter_narrower:
  assumes "\<And>x. P x \<Longrightarrow> Q x" and "filter Q xs = filter Q ys"
  shows "filter P xs = filter P ys"
proof -
  have "\<And>zs. filter P (filter Q zs) = filter P zs"
    using assms(1) by (auto simp: filter_filter intro: filter_cong)
  then have "filter P xs = filter P (filter Q xs)" "filter P ys = filter P (filter Q ys)"
    by simp_all
  with assms(2) show ?thesis by simp
qed

text \<open>
  Claim C8, as the code has it. Let the comparison of the platform be a collation: it orders
  the names as some key of them into a linear order does. Then the sorted categories are the
  given ones, ordered by that comparison of their names, and the categories whose names it
  does not tell apart keep the order that they have in the given list, whatever their
  identifiers are. When the comparison does not tell apart names that are equal up to case,
  the categories with such names keep the order of the given list.
\<close>

theorem sortCategories_stable_by_name:
  fixes key :: "string \<Rightarrow> 'k :: linorder"
  assumes "\<And>a b. (cmp a b < 0) = (key a < key b)"
    and "\<And>a b. (cmp a b = 0) = (key a = key b)"
  shows "mset (sortCategories cmp its) = mset its
   \<and> sorted_wrt (\<lambda>c d. cmp (name c) (name d) \<le> 0) (sortCategories cmp its)
   \<and> filter (\<lambda>c. cmp (name c) n = 0) (sortCategories cmp its) = filter (\<lambda>c. cmp (name c) n = 0) its
   \<and> ((\<forall>a b. asciiLower a = asciiLower b \<longrightarrow> cmp a b = 0) \<longrightarrow>
        filter (\<lambda>c. asciiLower (name c) = asciiLower n) (sortCategories cmp its)
          = filter (\<lambda>c. asciiLower (name c) = asciiLower n) its)"
proof -
  have le: "\<And>a b. (cmp a b \<le> 0) = (key a \<le> key b)"
  proof -
    fix a b
    have "(cmp a b \<le> 0) = (cmp a b < 0 \<or> cmp a b = 0)" by arith
    also have "\<dots> = (key a < key b \<or> key a = key b)" by (simp only: assms)
    also have "\<dots> = (key a \<le> key b)" by (rule le_less [symmetric])
    finally show "(cmp a b \<le> 0) = (key a \<le> key b)" .
  qed
  have s: "sortCategories cmp its = sort_key (\<lambda>c. key (name c)) its"
    using le by (rule sortCategories_sort_key)
  have m: "mset (sortCategories cmp its) = mset its"
    unfolding s by simp
  have "sorted (map (\<lambda>c. key (name c)) (sortCategories cmp its))"
    unfolding s by simp
  then have "sorted_wrt (\<lambda>c d. key (name c) \<le> key (name d)) (sortCategories cmp its)"
    by (simp only: sorted_map)
  then have o: "sorted_wrt (\<lambda>c d. cmp (name c) (name d) \<le> 0) (sortCategories cmp its)"
    by (simp only: le)
  have "filter (\<lambda>c. key (name c) = key n) (sortCategories cmp its) = filter (\<lambda>c. key (name c) = key n) its"
    unfolding s by (rule sort_key_stable)
  then have t: "filter (\<lambda>c. cmp (name c) n = 0) (sortCategories cmp its) = filter (\<lambda>c. cmp (name c) n = 0) its"
    by (simp only: assms(2))
  have c: "(\<forall>a b. asciiLower a = asciiLower b \<longrightarrow> cmp a b = 0) \<longrightarrow>
        filter (\<lambda>c. asciiLower (name c) = asciiLower n) (sortCategories cmp its)
          = filter (\<lambda>c. asciiLower (name c) = asciiLower n) its"
  proof
    assume h: "\<forall>a b. asciiLower a = asciiLower b \<longrightarrow> cmp a b = 0"
    show "filter (\<lambda>c. asciiLower (name c) = asciiLower n) (sortCategories cmp its)
          = filter (\<lambda>c. asciiLower (name c) = asciiLower n) its"
    proof (rule filter_narrower [where Q = "\<lambda>c. cmp (name c) n = 0"])
      fix x :: Category
      assume "asciiLower (name x) = asciiLower n"
      with h show "cmp (name x) n = 0" by blast
    next
      show "filter (\<lambda>c. cmp (name c) n = 0) (sortCategories cmp its) = filter (\<lambda>c. cmp (name c) n = 0) its"
        by (rule t)
    qed
  qed
  from m o t c show ?thesis by blast
qed

lemma asciiCompare_less: "(asciiCompare a b < 0) = (asciiLower a < asciiLower b)"
  by (auto simp: asciiCompare_def)

lemma asciiCompare_eq: "(asciiCompare a b = 0) = (asciiLower a = asciiLower b)"
  by (auto simp: asciiCompare_def)

text \<open>
  With the sample comparison, \<open>b\<close>, \<open>a\<close>, \<open>A\<close> are sorted to \<open>a\<close>, \<open>A\<close>, \<open>b\<close>.
\<close>

theorem sortCategories_stable_by_name_witness:
  "sortCategories asciiCompare
      [\<lparr>id' = ''3'', name = ''b''\<rparr>, \<lparr>id' = ''2'', name = ''a''\<rparr>, \<lparr>id' = ''1'', name = ''A''\<rparr>]
     = [\<lparr>id' = ''2'', name = ''a''\<rparr>, \<lparr>id' = ''1'', name = ''A''\<rparr>, \<lparr>id' = ''3'', name = ''b''\<rparr>]
   \<and> filter (\<lambda>c. asciiLower (name c) = asciiLower ''A'')
        [\<lparr>id' = ''2'', name = ''a''\<rparr>, \<lparr>id' = ''1'', name = ''A''\<rparr>, \<lparr>id' = ''3'', name = ''b''\<rparr>]
     = [\<lparr>id' = ''2'', name = ''a''\<rparr>, \<lparr>id' = ''1'', name = ''A''\<rparr>]"
proof -
  have h: "\<forall>a b. asciiLower a = asciiLower b \<longrightarrow> asciiCompare a b = 0"
    by (simp add: asciiCompare_eq)
  have e: "sortCategories asciiCompare
      [\<lparr>id' = ''3'', name = ''b''\<rparr>, \<lparr>id' = ''2'', name = ''a''\<rparr>, \<lparr>id' = ''1'', name = ''A''\<rparr>]
     = [\<lparr>id' = ''2'', name = ''a''\<rparr>, \<lparr>id' = ''1'', name = ''A''\<rparr>, \<lparr>id' = ''3'', name = ''b''\<rparr>]"
    by (simp add: sortCategories_def arraySort_def asciiCompare_def asciiLower_def)
  from sortCategories_stable_by_name
      [of asciiCompare asciiLower
          "[\<lparr>id' = ''3'', name = ''b''\<rparr>, \<lparr>id' = ''2'', name = ''a''\<rparr>, \<lparr>id' = ''1'', name = ''A''\<rparr>]" "''A''",
       OF asciiCompare_less asciiCompare_eq] h
  have "filter (\<lambda>c. asciiLower (name c) = asciiLower ''A'')
        (sortCategories asciiCompare
          [\<lparr>id' = ''3'', name = ''b''\<rparr>, \<lparr>id' = ''2'', name = ''a''\<rparr>, \<lparr>id' = ''1'', name = ''A''\<rparr>])
     = filter (\<lambda>c. asciiLower (name c) = asciiLower ''A'')
        [\<lparr>id' = ''3'', name = ''b''\<rparr>, \<lparr>id' = ''2'', name = ''a''\<rparr>, \<lparr>id' = ''1'', name = ''A''\<rparr>]"
    by blast
  then have "filter (\<lambda>c. asciiLower (name c) = asciiLower ''A'')
        [\<lparr>id' = ''2'', name = ''a''\<rparr>, \<lparr>id' = ''1'', name = ''A''\<rparr>, \<lparr>id' = ''3'', name = ''b''\<rparr>]
     = [\<lparr>id' = ''2'', name = ''a''\<rparr>, \<lparr>id' = ''1'', name = ''A''\<rparr>]"
    unfolding e by (simp add: asciiLower_def)
  with e show ?thesis by simp
qed

text \<open>
  The names \<open>a\<close> and \<open>A\<close> are equal up to case and the comparison gives zero for them; the
  category with the identifier \<open>2\<close> stays before the one with the identifier \<open>1\<close>.
\<close>

theorem category_tie_break_counterexample:
  "sortCategories asciiCompare [\<lparr>id' = ''2'', name = ''a''\<rparr>, \<lparr>id' = ''1'', name = ''A''\<rparr>]
     = [\<lparr>id' = ''2'', name = ''a''\<rparr>, \<lparr>id' = ''1'', name = ''A''\<rparr>]
   \<and> asciiCompare ''a'' ''A'' = 0
   \<and> (''1'' :: string) < ''2''"
  by (simp add: sortCategories_def arraySort_def asciiCompare_def asciiLower_def)

section \<open>The hooks after a mutation\<close>

text \<open>
  Claim C5. When the request of a create, update or remove on expenses or incomes fails, the
  call throws the error again, and the state after it is the state before it with the error
  message set (and \<open>submitting\<close> reset): the items and the total are the ones held before.
\<close>

theorem failed_mutation_keeps_state:
  "(apiPost api payload w = (Inl err, w1) \<longrightarrow>
      useExpenses_create api payload st w
        = (Inl err, st\<lparr>error := Some (getApiErrorMessage err), submitting := False\<rparr>, w1)
      \<and> useIncomes_create api payload st w
        = (Inl err, st\<lparr>error := Some (getApiErrorMessage err), submitting := False\<rparr>, w1))
   \<and> (apiPut api ident payload w = (Inl err, w1) \<longrightarrow>
      useExpenses_update api ident payload st w
        = (Inl err, st\<lparr>error := Some (getApiErrorMessage err), submitting := False\<rparr>, w1)
      \<and> useIncomes_update api ident payload st w
        = (Inl err, st\<lparr>error := Some (getApiErrorMessage err), submitting := False\<rparr>, w1))
   \<and> (apiDelete api ident w = (Inl err, w1) \<longrightarrow>
      useExpenses_remove api ident st w
        = (Inl err, st\<lparr>error := Some (getApiErrorMessage err), submitting := False\<rparr>, w1)
      \<and> useIncomes_remove api ident st w
        = (Inl err, st\<lparr>error := Some (getApiErrorMessage err), submitting := False\<rparr>, w1))
   \<and> items (st\<lparr>error := e, submitting := False\<rparr>) = items st
   \<and> total (st\<lparr>error := e, submitting := False\<rparr>) = total st"
  by (simp add: useExpenses_create_def useIncomes_create_def useExpenses_update_def
      useIncomes_update_def useExpenses_remove_def useIncomes_remove_def)

theorem failed_mutation_keeps_state_witness:
  "useExpenses_create failingApi ''coffee'' heldState ()
     = (Inl (AxiosError (Some ''Validation failed'') (Some ''amount'') ''Request failed''),
        heldState\<lparr>error := Some ''Validation failed: amount''\<rparr>, ())
   \<and> useIncomes_update failingApi ''7'' ''coffee'' heldState ()
     = (Inl (Error ''Network Error''), heldState\<lparr>error := Some ''Network Error''\<rparr>, ())
   \<and> useExpenses_remove failingApi ''7'' heldState ()
     = (Inl NoError, heldState\<lparr>error := Some ''Unexpected error occurred''\<rparr>, ())
   \<and> items (heldState\<lparr>error := Some ''Network Error''\<rparr>) = [''rent'']
   \<and> total (heldState\<lparr>error := Some ''Network Error''\<rparr>) = ''10.50''"
  using failed_mutation_keeps_state
      [of failingApi "''coffee''" "()" "AxiosError (Some ''Validation failed'') (Some ''amount'') ''Request failed''"
          "()" heldState "''7''"]
    failed_mutation_keeps_state
      [of failingApi "''coffee''" "()" "Error ''Network Error''" "()" heldState "''7''"]
    failed_mutation_keeps_state
      [of failingApi "''coffee''" "()" NoError "()" heldState "''7''"]
  by (simp add: failingApi_def heldState_def)

text \<open>
  Claim C4, as the code has it. After a successful create, update or remove on expenses or
  incomes the hook issues the GET of the list again, and when that succeeds it holds the
  items and the total of that response, whatever it held before. The category operations do
  not fetch again: create appends the response to the held items and sorts them, update puts
  the response in the place of the item with that identifier and sorts, remove drops the item
  with that identifier.
\<close>

theorem refetch_after_ledger_mutation:
  "(apiPost api payload w = (Inr r, w1) \<and> apiGet api w1 = (Inr (its, tot), w2) \<longrightarrow>
      useExpenses_create api payload st w
        = (Inr (), st\<lparr>items := its, total := tot, loading := False, submitting := False, error := None\<rparr>, w2)
      \<and> useIncomes_create api payload st w
        = (Inr (), st\<lparr>items := its, total := tot, loading := False, submitting := False, error := None\<rparr>, w2))
   \<and> (apiPut api ident payload w = (Inr r, w1) \<and> apiGet api w1 = (Inr (its, tot), w2) \<longrightarrow>
      useExpenses_update api ident payload st w
        = (Inr (), st\<lparr>items := its, total := tot, loading := False, submitting := False, error := None\<rparr>, w2)
      \<and> useIncomes_update api ident payload st w
        = (Inr (), st\<lparr>items := its, total := tot, loading := False, submitting := False, error := None\<rparr>, w2))
   \<and> (apiDelete api ident w = (Inr u, w1) \<and> apiGet api w1 = (Inr (its, tot), w2) \<longrightarrow>
      useExpenses_remove api ident st w
        = (Inr (), st\<lparr>items := its, total := tot, loading := False, submitting := False, error := None\<rparr>, w2)
      \<and> useIncomes_remove api ident st w
        = (Inr (), st\<lparr>items := its, total := tot, loading := False, submitting := False, error := None\<rparr>, w2))
   \<and> (categoriesPost capi n cw = (Inr data, cw1) \<longrightarrow>
      useCategories_create cmp capi n cst cw
        = (Inr data,
           cst\<lparr>categoryItems := sortCategories cmp (categoryItems cst @ [data]),
               categorySubmitting := False, categoryError := None\<rparr>, cw1))
   \<and> (categoriesPut capi ident n cw = (Inr data, cw1) \<longrightarrow>
      useCategories_update cmp capi ident n cst cw
        = (Inr data,
           cst\<lparr>categoryItems :=
                 sortCategories cmp
                   (map (\<lambda>item. if id' item = ident then data else item) (categoryItems cst)),
               categorySubmitting := False, categoryError := None\<rparr>, cw1))
   \<and> (categoriesDelete capi ident cw = (Inr u, cw1) \<longrightarrow>
      useCategories_remove capi ident cst cw
        = (Inr (),
           cst\<lparr>categoryItems := filter (\<lambda>item. id' item \<noteq> ident) (categoryItems cst),
               categorySubmitting := False, categoryError := None\<rparr>, cw1))"
  by (simp add: useExpenses_create_def useIncomes_create_def useExpenses_update_def
      useIncomes_update_def useExpenses_remove_def useIncomes_remove_def
      useExpenses_refresh_def useIncomes_refresh_def
      useCategories_create_def useCategories_update_def useCategories_remove_def)

theorem refetch_after_ledger_mutation_witness:
  "useExpenses_create listingApi ''coffee'' heldState ()
     = (Inr (), heldState\<lparr>items := [''rent'', ''coffee''], total := ''15.75''\<rparr>, ())
   \<and> useIncomes_remove listingApi ''7'' heldState ()
     = (Inr (), heldState\<lparr>items := [''rent'', ''coffee''], total := ''15.75''\<rparr>, ())
   \<and> useCategories_create asciiCompare sharedCategoryApi ''Travel'' emptyCategoryState ()
     = (Inr \<lparr>id' = ''2'', name = ''Travel''\<rparr>,
        emptyCategoryState\<lparr>categoryItems := [\<lparr>id' = ''2'', name = ''Travel''\<rparr>]\<rparr>, ())"
  using refetch_after_ledger_mutation
    [where api = listingApi and payload = "''coffee''" and w = "()" and r = "''coffee''" and ?w1.0 = "()"
       and its = "[''rent'', ''coffee'']" and tot = "''15.75''" and ?w2.0 = "()" and st = heldState
       and ident = "''7''" and u = "()" and capi = sharedCategoryApi and n = "''Travel''" and cw = "()"
       and data = "\<lparr>id' = ''2'', name = ''Travel''\<rparr>" and ?cw1.0 = "()" and cst = emptyCategoryState
       and cmp = asciiCompare]
  by (simp add: listingApi_def heldState_def sharedCategoryApi_def emptyCategoryState_def
      sortCategories_def arraySort_def)

text \<open>
  A client that holds no category creates \<open>Travel\<close> on a server that holds \<open>Food\<close>: it
  then holds \<open>Travel\<close> alone, and the GET of the list would give both.
\<close>

theorem category_refetch_counterexample:
  "categoryItems (fst (snd (useCategories_create asciiCompare sharedCategoryApi ''Travel'' emptyCategoryState ())))
     = [\<lparr>id' = ''2'', name = ''Travel''\<rparr>]
   \<and> fst (categoriesGet sharedCategoryApi ())
     = Inr [\<lparr>id' = ''1'', name = ''Food''\<rparr>, \<lparr>id' = ''2'', name = ''Travel''\<rparr>]
   \<and> sortCategories asciiCompare [\<lparr>id' = ''1'', name = ''Food''\<rparr>, \<lparr>id' = ''2'', name = ''Travel''\<rparr>]
     \<noteq> [\<lparr>id' = ''2'', name = ''Travel''\<rparr>]"
  by (simp add: useCategories_create_def sharedCategoryApi_def emptyCategoryState_def
      sortCategories_def arraySort_def asciiCompare_def asciiLower_def)

end
